theory Spec2Isabelle
  imports Complex_Main
begin

section \<open>Values and conventions\<close>

text \<open>
  The three engines of the repository (\<^verbatim>\<open>Bisect_Method.py\<close>, \<^verbatim>\<open>Newton_Method.py\<close>,
  \<^verbatim>\<open>Secant_Method.py\<close>) are embedded as HOL functions. Numbers are exact reals: rounding,
  infinities and NaN of Python floats are outside the model. The iteration cap is a Python
  integer, so it is an \<open>int\<close>, and a loop \<^verbatim>\<open>for i in range(1, n)\<close> is a recursion over
  the list \<open>[1..n - 1]\<close> of the values of \<^verbatim>\<open>i\<close>, which is empty when \<open>n \<le> 1\<close>. The
  \<^verbatim>\<open>print\<close> calls are not modelled, except that the two messages printed right before a
  \<^verbatim>\<open>break\<close> name the way the loop was left (\<open>exit\<close> below).
\<close>

text \<open>
  Python raises \<^verbatim>\<open>ZeroDivisionError\<close> when the right operand of \<^verbatim>\<open>/\<close> is zero, for its
  own \<^verbatim>\<open>int\<close> and \<^verbatim>\<open>float\<close>. (A numpy scalar would give an infinity instead; that is
  outside the model, like every other non-real float.)
\<close>

datatype error = ZeroDivisionError

definition py_div :: "real \<Rightarrow> real \<Rightarrow> error + real" where
  "py_div n d = (if d = 0 then Inl ZeroDivisionError else Inr (n / d))"

text \<open>
  What an engine returns: \<open>PyNone\<close> is a bare \<^verbatim>\<open>return\<close> or the end of the function body,
  \<open>Same_Sign\<close> the string \<^verbatim>\<open>"Same Sign"\<close>, \<open>Root_found c fc\<close> the string
  \<^verbatim>\<open>f"Root found at ({c},{fc})"\<close>, \<open>Zero_at x fx\<close> the string \<^verbatim>\<open>f"Zero at ({x}, {fx})"\<close>, and
  \<open>Seqs x_vals fx_vals\<close> the tuple \<^verbatim>\<open>(x_vals, fx_vals)\<close>.
\<close>

datatype pyval =
    PyNone
  | Same_Sign
  | Root_found real real
  | Zero_at real real
  | Seqs "real list" "real list"

text \<open>
  How a loop was left: \<open>Converged\<close> is the \<^verbatim>\<open>break\<close> (or \<^verbatim>\<open>return\<close>) under the tolerance test,
  \<open>Small_Slope\<close> the one under the derivative or difference guard, \<open>Exhausted\<close> the end of
  the \<^verbatim>\<open>range\<close>.
\<close>

datatype exit = Converged | Small_Slope | Exhausted

section \<open>Bisect\_Method.py\<close>

definition sign :: "real \<Rightarrow> int" where
  "sign a = (if a < 0 then - 1 else 1)"

subsection \<open>bisect\_method\<close>

text \<open>
  The loop of \<^verbatim>\<open>bisect_method\<close>, with the locals \<^verbatim>\<open>a, b, fa, fb, e\<close> as arguments. On the
  branch that replaces \<^verbatim>\<open>a\<close> the source assigns \<^verbatim>\<open>fa = c\<close>.
\<close>

fun bisect_loop ::
  "(real \<Rightarrow> real) \<Rightarrow> real \<Rightarrow> real \<Rightarrow> int list \<Rightarrow> real \<Rightarrow> real \<Rightarrow> real \<Rightarrow> real \<Rightarrow> real \<Rightarrow> pyval"
where
  "bisect_loop f err1 epsilon [] a b fa fb e = PyNone"
| "bisect_loop f err1 epsilon (i # rng) a b fa fb e =
    (let e = e / 2; c = a + e; fc = f c in
     if abs e < err1 \<or> abs fc < epsilon then Root_found c fc
     else if sign fc \<noteq> sign (f a)
       then bisect_loop f err1 epsilon rng a c fa fc e
       else bisect_loop f err1 epsilon rng c b c fb e)"

definition bisect_method ::
  "real \<Rightarrow> real \<Rightarrow> int \<Rightarrow> real \<Rightarrow> real \<Rightarrow> (real \<Rightarrow> real) \<Rightarrow> pyval"
where
  "bisect_method a b M err1 epsilon f =
    (let fa = f a; fb = f b; e = b - a in
     if sign fa = sign fb then Same_Sign
     else bisect_loop f err1 epsilon [1..M - 1] a b fa fb e)"

text \<open>
  The variant the specification calls corrected: the same function with \<^verbatim>\<open>fa = fc\<close> on the
  branch that replaces \<^verbatim>\<open>a\<close>.
\<close>

fun bisect_loop_corrected ::
  "(real \<Rightarrow> real) \<Rightarrow> real \<Rightarrow> real \<Rightarrow> int list \<Rightarrow> real \<Rightarrow> real \<Rightarrow> real \<Rightarrow> real \<Rightarrow> real \<Rightarrow> pyval"
where
  "bisect_loop_corrected f err1 epsilon [] a b fa fb e = PyNone"
| "bisect_loop_corrected f err1 epsilon (i # rng) a b fa fb e =
    (let e = e / 2; c = a + e; fc = f c in
     if abs e < err1 \<or> abs fc < epsilon then Root_found c fc
     else if sign fc \<noteq> sign (f a)
       then bisect_loop_corrected f err1 epsilon rng a c fa fc e
       else bisect_loop_corrected f err1 epsilon rng c b fc fb e)"

definition bisect_method_corrected ::
  "real \<Rightarrow> real \<Rightarrow> int \<Rightarrow> real \<Rightarrow> real \<Rightarrow> (real \<Rightarrow> real) \<Rightarrow> pyval"
where
  "bisect_method_corrected a b M err1 epsilon f =
    (let fa = f a; fb = f b; e = b - a in
     if sign fa = sign fb then Same_Sign
     else bisect_loop_corrected f err1 epsilon [1..M - 1] a b fa fb e)"

subsection \<open>bisect\_method\_with\_plot\<close>

text \<open>
  The loop of \<^verbatim>\<open>bisect_method_with_plot\<close>. Besides the locals of the source it carries a
  log that the source does not have: one entry \<open>(a, b, e)\<close> per pass, the bracket at the
  moment the midpoint is computed (what \<^verbatim>\<open>bisect_animation\<close> appends to \<^verbatim>\<open>intervals\<close>) and
  the halved width \<^verbatim>\<open>e\<close> of that pass. The log is never read by the loop.
\<close>

type_synonym bisect_log = "(real \<times> real \<times> real) list"

fun bisect_plot_loop ::
  "(real \<Rightarrow> real) \<Rightarrow> real \<Rightarrow> real \<Rightarrow> int list \<Rightarrow> real \<Rightarrow> real \<Rightarrow> real \<Rightarrow> real \<Rightarrow> real \<Rightarrow>
   real list \<Rightarrow> real list \<Rightarrow> bisect_log \<Rightarrow> exit \<times> real list \<times> real list \<times> bisect_log"
where
  "bisect_plot_loop f err1 epsilon [] a b fa fb e x_vals fx_vals lg =
    (Exhausted, x_vals, fx_vals, lg)"
| "bisect_plot_loop f err1 epsilon (i # rng) a b fa fb e x_vals fx_vals lg =
    (let e = e / 2; c = a + e; fc = f c;
         x_vals = x_vals @ [c]; fx_vals = fx_vals @ [fc];
         lg = lg @ [(a, b, e)] in
     if abs e < err1 \<or> abs fc < epsilon then (Converged, x_vals, fx_vals, lg)
     else if sign fc \<noteq> sign (f a)
       then bisect_plot_loop f err1 epsilon rng a c fa fc e x_vals fx_vals lg
       else bisect_plot_loop f err1 epsilon rng c b fc fb e x_vals fx_vals lg)"

text \<open>
  The run from the first pass on, for a bracket that passed the sign test: the way the loop
  was left, the two sequences, and the log.
\<close>

definition bisect_plot_run ::
  "real \<Rightarrow> real \<Rightarrow> int \<Rightarrow> real \<Rightarrow> real \<Rightarrow> (real \<Rightarrow> real) \<Rightarrow> exit \<times> real list \<times> real list \<times> bisect_log"
where
  "bisect_plot_run a b M err1 epsilon f =
    bisect_plot_loop f err1 epsilon [1..M] a b (f a) (f b) (b - a) [] [] []"

definition bisect_method_with_plot ::
  "real \<Rightarrow> real \<Rightarrow> int \<Rightarrow> real \<Rightarrow> real \<Rightarrow> (real \<Rightarrow> real) \<Rightarrow> pyval"
where
  "bisect_method_with_plot a b M err1 epsilon f =
    (let fa = f a; fb = f b in
     if sign fa = sign fb then Same_Sign
     else (case bisect_plot_run a b M err1 epsilon f of
             (ex, x_vals, fx_vals, lg) \<Rightarrow> Seqs x_vals fx_vals))"

text \<open>
  What a pass of the bisection loop is checked against: at the moment the midpoint \<open>c\<close> is
  computed the bracket \<open>(a, b)\<close> has a sign change, the halved width is half the bracket, and
  \<open>c\<close> is the midpoint.
\<close>

fun bracketing :: "(real \<Rightarrow> real) \<Rightarrow> real \<Rightarrow> real \<times> real \<times> real \<Rightarrow> bool" where
  "bracketing f c (a, b, e) \<longleftrightarrow> sign (f a) \<noteq> sign (f b) \<and> e = (b - a) / 2 \<and> c = a + e"

section \<open>Newton\_Method.py\<close>

text \<open>
  The loops of the Newton and secant engines with visualisation support carry a log that
  the source does not have: one entry \<open>(divisor, d)\<close> per division that returned, the right
  operand of \<^verbatim>\<open>/\<close> and the step \<^verbatim>\<open>d\<close> it gave. The log is never read by the loop.
\<close>

type_synonym slope_log = "(real \<times> real) list"

subsection \<open>newton\_method\<close>

fun newton_loop ::
  "(real \<Rightarrow> real) \<Rightarrow> (real \<Rightarrow> real) \<Rightarrow> real \<Rightarrow> real \<Rightarrow> real \<Rightarrow> int list \<Rightarrow> real \<Rightarrow> real \<Rightarrow>
   error + pyval"
where
  "newton_loop f fprime err1 err2 epsilon [] x fx = Inr PyNone"
| "newton_loop f fprime err1 err2 epsilon (i # rng) x fx =
    (let fp = fprime x in
     if abs fp < epsilon then Inr PyNone
     else (case py_div fx fp of
             Inl err \<Rightarrow> Inl err
           | Inr d \<Rightarrow>
              (let x = x - d; fx = f x in
               if abs d < err1 \<or> abs fx < err2 then Inr (Zero_at x fx)
               else newton_loop f fprime err1 err2 epsilon rng x fx)))"

definition newton_method ::
  "(real \<Rightarrow> real) \<Rightarrow> (real \<Rightarrow> real) \<Rightarrow> real \<Rightarrow> int \<Rightarrow> real \<Rightarrow> real \<Rightarrow> real \<Rightarrow> error + pyval"
where
  "newton_method f fprime x nmax err1 err2 epsilon =
    (let fx = f x in newton_loop f fprime err1 err2 epsilon [1..nmax - 1] x fx)"

subsection \<open>newton\_method\_with\_plot\<close>

fun newton_plot_loop ::
  "(real \<Rightarrow> real) \<Rightarrow> (real \<Rightarrow> real) \<Rightarrow> real \<Rightarrow> real \<Rightarrow> real \<Rightarrow> int list \<Rightarrow> real \<Rightarrow> real \<Rightarrow>
   real list \<Rightarrow> real list \<Rightarrow> slope_log \<Rightarrow> error + exit \<times> real list \<times> real list \<times> slope_log"
where
  "newton_plot_loop f fprime err1 err2 epsilon [] x fx x_vals fx_vals lg =
    Inr (Exhausted, x_vals, fx_vals, lg)"
| "newton_plot_loop f fprime err1 err2 epsilon (i # rng) x fx x_vals fx_vals lg =
    (let fp = fprime x in
     if abs fp < epsilon then Inr (Small_Slope, x_vals, fx_vals, lg)
     else (case py_div fx fp of
             Inl err \<Rightarrow> Inl err
           | Inr d \<Rightarrow>
              (let x = x - d; fx = f x;
                   x_vals = x_vals @ [x]; fx_vals = fx_vals @ [fx];
                   lg = lg @ [(fp, d)] in
               if abs d < err1 \<or> abs fx < err2 then Inr (Converged, x_vals, fx_vals, lg)
               else newton_plot_loop f fprime err1 err2 epsilon rng x fx x_vals fx_vals lg)))"

definition newton_plot_run ::
  "(real \<Rightarrow> real) \<Rightarrow> (real \<Rightarrow> real) \<Rightarrow> real \<Rightarrow> int \<Rightarrow> real \<Rightarrow> real \<Rightarrow> real \<Rightarrow>
   error + exit \<times> real list \<times> real list \<times> slope_log"
where
  "newton_plot_run f fprime x0 nmax err1 err2 epsilon =
    (let x = x0; fx = f x in
     newton_plot_loop f fprime err1 err2 epsilon [1..nmax] x fx [x] [fx] [])"

definition newton_method_with_plot ::
  "(real \<Rightarrow> real) \<Rightarrow> (real \<Rightarrow> real) \<Rightarrow> real \<Rightarrow> int \<Rightarrow> real \<Rightarrow> real \<Rightarrow> real \<Rightarrow> error + pyval"
where
  "newton_method_with_plot f fprime x0 nmax err1 err2 epsilon =
    (case newton_plot_run f fprime x0 nmax err1 err2 epsilon of
       Inl err \<Rightarrow> Inl err
     | Inr (ex, x_vals, fx_vals, lg) \<Rightarrow> Inr (Seqs x_vals fx_vals))"

section \<open>Secant\_Method.py\<close>

subsection \<open>secant\_method\<close>

fun secant_loop ::
  "(real \<Rightarrow> real) \<Rightarrow> real \<Rightarrow> real \<Rightarrow> real \<Rightarrow> int list \<Rightarrow> real \<Rightarrow> real \<Rightarrow> real \<Rightarrow> real \<Rightarrow>
   error + pyval"
where
  "secant_loop f err1 err2 epsilon [] x0 x1 fx0 fx1 = Inr PyNone"
| "secant_loop f err1 err2 epsilon (i # rng) x0 x1 fx0 fx1 =
    (if abs (fx1 - fx0) < epsilon then Inr PyNone
     else (case py_div (fx1 * (x1 - x0)) (fx1 - fx0) of
             Inl err \<Rightarrow> Inl err
           | Inr d \<Rightarrow>
              (let x0' = x1; x1' = x1 - d;
                   fx0' = fx1; fx1' = f x1' in
               if abs d < err1 \<or> abs fx1' < err2 then Inr (Zero_at x1' fx1')
               else secant_loop f err1 err2 epsilon rng x0' x1' fx0' fx1')))"

definition secant_method ::
  "(real \<Rightarrow> real) \<Rightarrow> real \<Rightarrow> real \<Rightarrow> int \<Rightarrow> real \<Rightarrow> real \<Rightarrow> real \<Rightarrow> error + pyval"
where
  "secant_method f x0 x1 nmax err1 err2 epsilon =
    (let fx0 = f x0; fx1 = f x1 in
     secant_loop f err1 err2 epsilon [1..nmax - 1] x0 x1 fx0 fx1)"

subsection \<open>secant\_method\_with\_plot\<close>

fun secant_plot_loop ::
  "(real \<Rightarrow> real) \<Rightarrow> real \<Rightarrow> real \<Rightarrow> real \<Rightarrow> int list \<Rightarrow> real \<Rightarrow> real \<Rightarrow> real \<Rightarrow> real \<Rightarrow>
   real list \<Rightarrow> real list \<Rightarrow> slope_log \<Rightarrow> error + exit \<times> real list \<times> real list \<times> slope_log"
where
  "secant_plot_loop f err1 err2 epsilon [] x0 x1 fx0 fx1 x_vals fx_vals lg =
    Inr (Exhausted, x_vals, fx_vals, lg)"
| "secant_plot_loop f err1 err2 epsilon (i # rng) x0 x1 fx0 fx1 x_vals fx_vals lg =
    (if abs (fx1 - fx0) < epsilon then Inr (Small_Slope, x_vals, fx_vals, lg)
     else (case py_div (fx1 * (x1 - x0)) (fx1 - fx0) of
             Inl err \<Rightarrow> Inl err
           | Inr d \<Rightarrow>
              (let x0' = x1; x1' = x1 - d;
                   fx0' = fx1; fx1' = f x1';
                   x_vals = x_vals @ [x1']; fx_vals = fx_vals @ [fx1'];
                   lg = lg @ [(fx1 - fx0, d)] in
               if abs d < err1 \<or> abs fx1' < err2 then Inr (Converged, x_vals, fx_vals, lg)
               else secant_plot_loop f err1 err2 epsilon rng x0' x1' fx0' fx1'
                      x_vals fx_vals lg)))"

definition secant_plot_run ::
  "(real \<Rightarrow> real) \<Rightarrow> real \<Rightarrow> real \<Rightarrow> int \<Rightarrow> real \<Rightarrow> real \<Rightarrow> real \<Rightarrow>
   error + exit \<times> real list \<times> real list \<times> slope_log"
where
  "secant_plot_run f x0 x1 nmax err1 err2 epsilon =
    (let fx0 = f x0; fx1 = f x1 in
     secant_plot_loop f err1 err2 epsilon [1..nmax] x0 x1 fx0 fx1 [x0, x1] [fx0, fx1] [])"

definition secant_method_with_plot ::
  "(real \<Rightarrow> real) \<Rightarrow> real \<Rightarrow> real \<Rightarrow> int \<Rightarrow> real \<Rightarrow> real \<Rightarrow> real \<Rightarrow> error + pyval"
where
  "secant_method_with_plot f x0 x1 nmax err1 err2 epsilon =
    (case secant_plot_run f x0 x1 nmax err1 err2 epsilon of
       Inl err \<Rightarrow> Inl err
     | Inr (ex, x_vals, fx_vals, lg) \<Rightarrow> Inr (Seqs x_vals fx_vals))"

section \<open>main.py: the second test function and its derivative\<close>

definition f2 :: "real \<Rightarrow> real" where
  "f2 x = x ^ 2 - 1"

definition f2_prime :: "real \<Rightarrow> real" where
  "f2_prime x = 2 * x"

section \<open>The bisection loop with sequences\<close>

text \<open>The accumulators only grow: a run from any accumulators is the run from empty ones, appended.\<close>

lemma bisect_plot_loop_acc:
  "bisect_plot_loop f err1 epsilon rng a b fa fb e xs fxs lg =
    (case bisect_plot_loop f err1 epsilon rng a b fa fb e [] [] [] of
       (ex, ys, fys, zs) \<Rightarrow> (ex, xs @ ys, fxs @ fys, lg @ zs))"
proof (induction rng arbitrary: a b fa fb e xs fxs lg)
  case Nil
  show ?case by simp
next
  case (Cons i rng)
  note IH = Cons.IH [of _ _ _ _ _ "xs @ [c]" "fxs @ [fc]" "lg @ [t]" for c fc t]
    Cons.IH [of _ _ _ _ _ "[c]" "[fc]" "[t]" for c fc t]
  show ?case
    by (simp add: Let_def IH split: prod.splits)
qed

lemma bisect_plot_loop_Cons:
  "bisect_plot_loop f err1 epsilon (i # rng) a b fa fb e [] [] [] =
    (if abs (e / 2) < err1 \<or> abs (f (a + e / 2)) < epsilon
     then (Converged, [a + e / 2], [f (a + e / 2)], [(a, b, e / 2)])
     else (case (if sign (f (a + e / 2)) \<noteq> sign (f a)
                 then bisect_plot_loop f err1 epsilon rng a (a + e / 2) fa (f (a + e / 2)) (e / 2) [] [] []
                 else bisect_plot_loop f err1 epsilon rng (a + e / 2) b (f (a + e / 2)) fb (e / 2) [] [] [])
           of (ex, ys, fys, zs) \<Rightarrow>
             (ex, (a + e / 2) # ys, f (a + e / 2) # fys, (a, b, e / 2) # zs)))"
  by (simp add: Let_def bisect_plot_loop_acc [of _ _ _ _ _ _ _ _ _ "[c]" "[fc]" "[t]" for c fc t]
      del: abs_divide)

lemma bisect_plot_loop_seqs:
  "bisect_plot_loop f err1 epsilon rng a b fa fb e [] [] [] = (ex, ys, fys, zs) \<Longrightarrow>
   fys = map f ys \<and> length zs = length ys \<and> length ys \<le> length rng"
proof (induction rng arbitrary: a b fa fb e ex ys fys zs)
  case Nil
  then show ?case by simp
next
  case (Cons i rng)
  from Cons.prems show ?case
    unfolding bisect_plot_loop_Cons
    by (auto split: if_splits prod.splits dest!: Cons.IH)
qed

lemma bisect_plot_loop_exit:
  "bisect_plot_loop f err1 epsilon rng a b fa fb e [] [] [] = (ex, ys, fys, zs) \<Longrightarrow>
   length zs = length ys \<and>
   ex \<noteq> Small_Slope \<and>
   (ex = Exhausted \<longrightarrow> length ys = length rng) \<and>
   (ex = Converged \<longleftrightarrow>
      ys \<noteq> [] \<and> (abs (snd (snd (last zs))) < err1 \<or> abs (f (last ys)) < epsilon))"
proof (induction rng arbitrary: a b fa fb e ex ys fys zs)
  case Nil
  then show ?case by simp
next
  case (Cons i rng)
  from Cons.prems show ?case
    unfolding bisect_plot_loop_Cons
    by (auto split: if_splits prod.splits dest!: Cons.IH)
qed

lemma bisect_plot_loop_bracket:
  "bisect_plot_loop f err1 epsilon rng a b fa fb e [] [] [] = (ex, ys, fys, zs) \<Longrightarrow>
   sign (f a) \<noteq> sign (f b) \<Longrightarrow> e = b - a \<Longrightarrow>
   list_all2 (bracketing f) ys zs"
proof (induction rng arbitrary: a b fa fb e ex ys fys zs)
  case Nil
  then show ?case by simp
next
  case (Cons i rng)
  let ?c = "a + e / 2"
  have width: "e / 2 = ?c - a" "e / 2 = b - ?c"
    using Cons.prems(3) by (simp_all add: field_simps)
  have here: "bracketing f ?c (a, b, e / 2)"
    using Cons.prems(2,3) by simp
  show ?case
  proof (cases "abs (e / 2) < err1 \<or> abs (f ?c) < epsilon")
    case True
    with Cons.prems(1) here show ?thesis
      unfolding bisect_plot_loop_Cons by auto
  next
    case False
    show ?thesis
    proof (cases "sign (f ?c) \<noteq> sign (f a)")
      case True
      with False Cons.prems(1) obtain ys' fys' zs' where
        rec: "bisect_plot_loop f err1 epsilon rng a ?c fa (f ?c) (e / 2) [] [] [] =
                (ex, ys', fys', zs')"
        and out: "ys = ?c # ys'" "zs = (a, b, e / 2) # zs'"
        unfolding bisect_plot_loop_Cons by (auto split: prod.splits)
      from True have "sign (f a) \<noteq> sign (f ?c)" by simp
      from Cons.IH [OF rec this width(1)] here out show ?thesis by simp
    next
      case same: False
      with False Cons.prems(1) obtain ys' fys' zs' where
        rec: "bisect_plot_loop f err1 epsilon rng ?c b (f ?c) fb (e / 2) [] [] [] =
                (ex, ys', fys', zs')"
        and out: "ys = ?c # ys'" "zs = (a, b, e / 2) # zs'"
        unfolding bisect_plot_loop_Cons by (auto split: prod.splits)
      from same Cons.prems(2) have "sign (f ?c) \<noteq> sign (f b)" by simp
      from Cons.IH [OF rec this width(2)] here out show ?thesis by simp
    qed
  qed
qed

lemma bisect_plot_loop_first:
  "bisect_plot_loop f err1 epsilon (i # rng) a b fa fb e [] [] [] = (ex, ys, fys, zs) \<Longrightarrow>
   ys \<noteq> [] \<and> hd ys = a + e / 2 \<and> zs \<noteq> [] \<and> hd zs = (a, b, e / 2)"
  unfolding bisect_plot_loop_Cons
  by (auto split: if_splits prod.splits)

section \<open>The Newton loop with sequences\<close>

lemma newton_plot_loop_acc:
  "newton_plot_loop f fprime err1 err2 epsilon rng x fx xs fxs lg =
    (case newton_plot_loop f fprime err1 err2 epsilon rng x fx [] [] [] of
       Inl err \<Rightarrow> Inl err
     | Inr (ex, ys, fys, zs) \<Rightarrow> Inr (ex, xs @ ys, fxs @ fys, lg @ zs))"
proof (induction rng arbitrary: x fx xs fxs lg)
  case Nil
  show ?case by simp
next
  case (Cons i rng)
  note IH = Cons.IH [of _ _ "xs @ [c]" "fxs @ [fc]" "lg @ [t]" for c fc t]
    Cons.IH [of _ _ "[c]" "[fc]" "[t]" for c fc t]
  show ?case
    by (simp add: Let_def py_div_def IH split: prod.splits sum.splits)
qed

lemma newton_plot_loop_Cons:
  "newton_plot_loop f fprime err1 err2 epsilon (i # rng) x fx [] [] [] =
    (if abs (fprime x) < epsilon then Inr (Small_Slope, [], [], [])
     else if fprime x = 0 then Inl ZeroDivisionError
     else if abs (fx / fprime x) < err1 \<or> abs (f (x - fx / fprime x)) < err2
       then Inr (Converged, [x - fx / fprime x], [f (x - fx / fprime x)],
                 [(fprime x, fx / fprime x)])
     else (case newton_plot_loop f fprime err1 err2 epsilon rng
                  (x - fx / fprime x) (f (x - fx / fprime x)) [] [] [] of
             Inl err \<Rightarrow> Inl err
           | Inr (ex, ys, fys, zs) \<Rightarrow>
               Inr (ex, (x - fx / fprime x) # ys, f (x - fx / fprime x) # fys,
                    (fprime x, fx / fprime x) # zs)))"
  by (simp add: Let_def py_div_def
        newton_plot_loop_acc [of _ _ _ _ _ _ _ _ "[c]" "[fc]" "[t]" for c fc t]
      del: abs_divide split: sum.splits prod.splits)

lemma newton_plot_loop_props:
  "newton_plot_loop f fprime err1 err2 epsilon rng x fx [] [] [] = Inr (ex, ys, fys, zs) \<Longrightarrow>
   length zs = length ys \<and> length ys \<le> length rng \<and> fys = map f ys \<and>
   (\<forall>p \<in> set zs. \<not> abs (fst p) < epsilon \<and> fst p \<noteq> 0) \<and>
   (ex = Exhausted \<longrightarrow> length ys = length rng) \<and>
   (ex = Converged \<longrightarrow>
      ys \<noteq> [] \<and> (abs (snd (last zs)) < err1 \<or> abs (f (last ys)) < err2)) \<and>
   (ex = Small_Slope \<longrightarrow> abs (fprime (last (x # ys))) < epsilon)"
proof (induction rng arbitrary: x fx ex ys fys zs)
  case Nil
  then show ?case by simp
next
  case (Cons i rng)
  from Cons.prems show ?case
    unfolding newton_plot_loop_Cons
    by (auto split: if_splits prod.splits sum.splits dest!: Cons.IH)
qed

lemma newton_plot_loop_no_error:
  "0 < epsilon \<Longrightarrow>
   \<exists>r. newton_plot_loop f fprime err1 err2 epsilon rng x fx [] [] [] = Inr r"
proof (induction rng arbitrary: x fx)
  case Nil
  show ?case by simp
next
  case (Cons i rng)
  from Cons.prems Cons.IH [OF Cons.prems, of "x - fx / fprime x" "f (x - fx / fprime x)"]
  show ?case
    unfolding newton_plot_loop_Cons by auto
qed

lemma newton_plot_loop_error:
  "newton_plot_loop f fprime err1 err2 epsilon rng x fx [] [] [] = Inl err \<Longrightarrow> epsilon \<le> 0"
  using newton_plot_loop_no_error [of epsilon f fprime err1 err2 rng x fx]
  by (cases "0 < epsilon") auto

lemma newton_plot_loop_steps:
  "newton_plot_loop f fprime err1 err2 epsilon rng x fx [] [] [] = Inr (ex, ys, fys, zs) \<Longrightarrow>
   i < length zs \<Longrightarrow>
   zs ! i = (fprime ((x # ys) ! i), (fx # fys) ! i / fprime ((x # ys) ! i)) \<and>
   ys ! i = (x # ys) ! i - snd (zs ! i)"
proof (induction rng arbitrary: x fx ex ys fys zs i)
  case Nil
  then show ?case by simp
next
  case (Cons j rng)
  from Cons.prems show ?case
    unfolding newton_plot_loop_Cons
    by (cases i) (auto split: if_splits prod.splits sum.splits dest!: Cons.IH)
qed

lemma newton_plot_loop_exit:
  "newton_plot_loop f fprime err1 err2 epsilon rng x fx [] [] [] = Inr (ex, ys, fys, zs) \<Longrightarrow>
   (ex \<noteq> Converged \<longrightarrow> ys \<noteq> [] \<longrightarrow>
      \<not> (abs (snd (last zs)) < err1 \<or> abs (last fys) < err2)) \<and>
   (ex = Converged \<longrightarrow> ys \<noteq> [] \<and> (abs (snd (last zs)) < err1 \<or> abs (last fys) < err2)) \<and>
   (ex = Small_Slope \<longrightarrow> length ys < length rng) \<and>
   (ex = Exhausted \<longrightarrow> length ys = length rng) \<and> length zs = length ys \<and> length fys = length ys"
proof (induction rng arbitrary: x fx ex ys fys zs)
  case Nil
  then show ?case by simp
next
  case (Cons i rng)
  from Cons.prems show ?case
    unfolding newton_plot_loop_Cons
    by (auto split: if_splits prod.splits sum.splits dest!: Cons.IH)
qed

section \<open>The secant loop with sequences\<close>

lemma secant_plot_loop_acc:
  "secant_plot_loop f err1 err2 epsilon rng x0 x1 fx0 fx1 xs fxs lg =
    (case secant_plot_loop f err1 err2 epsilon rng x0 x1 fx0 fx1 [] [] [] of
       Inl err \<Rightarrow> Inl err
     | Inr (ex, ys, fys, zs) \<Rightarrow> Inr (ex, xs @ ys, fxs @ fys, lg @ zs))"
proof (induction rng arbitrary: x0 x1 fx0 fx1 xs fxs lg)
  case Nil
  show ?case by simp
next
  case (Cons i rng)
  note IH = Cons.IH [of _ _ _ _ "xs @ [c]" "fxs @ [fc]" "lg @ [t]" for c fc t]
    Cons.IH [of _ _ _ _ "[c]" "[fc]" "[t]" for c fc t]
  show ?case
    by (simp add: Let_def py_div_def IH split: prod.splits sum.splits)
qed

lemma secant_plot_loop_Cons:
  "secant_plot_loop f err1 err2 epsilon (i # rng) x0 x1 fx0 fx1 [] [] [] =
    (if abs (fx1 - fx0) < epsilon then Inr (Small_Slope, [], [], [])
     else if fx1 - fx0 = 0 then Inl ZeroDivisionError
     else if abs (fx1 * (x1 - x0) / (fx1 - fx0)) < err1
             \<or> abs (f (x1 - fx1 * (x1 - x0) / (fx1 - fx0))) < err2
       then Inr (Converged, [x1 - fx1 * (x1 - x0) / (fx1 - fx0)],
                 [f (x1 - fx1 * (x1 - x0) / (fx1 - fx0))],
                 [(fx1 - fx0, fx1 * (x1 - x0) / (fx1 - fx0))])
     else (case secant_plot_loop f err1 err2 epsilon rng
                  x1 (x1 - fx1 * (x1 - x0) / (fx1 - fx0))
                  fx1 (f (x1 - fx1 * (x1 - x0) / (fx1 - fx0))) [] [] [] of
             Inl err \<Rightarrow> Inl err
           | Inr (ex, ys, fys, zs) \<Rightarrow>
               Inr (ex, (x1 - fx1 * (x1 - x0) / (fx1 - fx0)) # ys,
                    f (x1 - fx1 * (x1 - x0) / (fx1 - fx0)) # fys,
                    (fx1 - fx0, fx1 * (x1 - x0) / (fx1 - fx0)) # zs)))"
  by (simp add: Let_def py_div_def
        secant_plot_loop_acc [of _ _ _ _ _ _ _ _ _ "[c]" "[fc]" "[t]" for c fc t]
      del: abs_divide split: sum.splits prod.splits)

lemma secant_plot_loop_props:
  "secant_plot_loop f err1 err2 epsilon rng x0 x1 fx0 fx1 [] [] [] = Inr (ex, ys, fys, zs) \<Longrightarrow>
   length zs = length ys \<and> length ys \<le> length rng \<and> fys = map f ys \<and>
   (\<forall>p \<in> set zs. \<not> abs (fst p) < epsilon \<and> fst p \<noteq> 0) \<and>
   (ex = Exhausted \<longrightarrow> length ys = length rng) \<and>
   (ex = Converged \<longrightarrow>
      ys \<noteq> [] \<and> (abs (snd (last zs)) < err1 \<or> abs (f (last ys)) < err2)) \<and>
   (ex = Small_Slope \<longrightarrow>
      abs ((fx0 # fx1 # fys) ! Suc (length fys) - (fx0 # fx1 # fys) ! length fys) < epsilon)"
proof (induction rng arbitrary: x0 x1 fx0 fx1 ex ys fys zs)
  case Nil
  then show ?case by simp
next
  case (Cons i rng)
  from Cons.prems show ?case
    unfolding secant_plot_loop_Cons
    by (auto split: if_splits prod.splits sum.splits dest!: Cons.IH)
qed

lemma secant_plot_loop_no_error:
  "0 < epsilon \<Longrightarrow>
   \<exists>r. secant_plot_loop f err1 err2 epsilon rng x0 x1 fx0 fx1 [] [] [] = Inr r"
proof (induction rng arbitrary: x0 x1 fx0 fx1)
  case Nil
  show ?case by simp
next
  case (Cons i rng)
  from Cons.prems
    Cons.IH [OF Cons.prems, of x1 "x1 - fx1 * (x1 - x0) / (fx1 - fx0)" fx1
      "f (x1 - fx1 * (x1 - x0) / (fx1 - fx0))"]
  show ?case
    unfolding secant_plot_loop_Cons by auto
qed

lemma secant_plot_loop_error:
  "secant_plot_loop f err1 err2 epsilon rng x0 x1 fx0 fx1 [] [] [] = Inl err \<Longrightarrow> epsilon \<le> 0"
  using secant_plot_loop_no_error [of epsilon f err1 err2 rng x0 x1 fx0 fx1]
  by (cases "0 < epsilon") auto

lemma secant_plot_loop_steps:
  "secant_plot_loop f err1 err2 epsilon rng x0 x1 fx0 fx1 [] [] [] = Inr (ex, ys, fys, zs) \<Longrightarrow>
   i < length zs \<Longrightarrow>
   zs ! i = ((fx1 # fys) ! i - (fx0 # fx1 # fys) ! i,
             (fx1 # fys) ! i * ((x1 # ys) ! i - (x0 # x1 # ys) ! i)
               / ((fx1 # fys) ! i - (fx0 # fx1 # fys) ! i)) \<and>
   ys ! i = (x1 # ys) ! i - snd (zs ! i)"
proof (induction rng arbitrary: x0 x1 fx0 fx1 ex ys fys zs i)
  case Nil
  then show ?case by simp
next
  case (Cons j rng)
  from Cons.prems show ?case
    unfolding secant_plot_loop_Cons
    by (cases i) (auto split: if_splits prod.splits sum.splits dest!: Cons.IH)
qed

lemma secant_plot_loop_exit:
  "secant_plot_loop f err1 err2 epsilon rng x0 x1 fx0 fx1 [] [] [] = Inr (ex, ys, fys, zs) \<Longrightarrow>
   (ex \<noteq> Converged \<longrightarrow> ys \<noteq> [] \<longrightarrow>
      \<not> (abs (snd (last zs)) < err1 \<or> abs (last fys) < err2)) \<and>
   (ex = Converged \<longrightarrow> ys \<noteq> [] \<and> (abs (snd (last zs)) < err1 \<or> abs (last fys) < err2)) \<and>
   (ex = Small_Slope \<longrightarrow> length ys < length rng) \<and>
   (ex = Exhausted \<longrightarrow> length ys = length rng) \<and> length zs = length ys \<and> length fys = length ys"
proof (induction rng arbitrary: x0 x1 fx0 fx1 ex ys fys zs)
  case Nil
  then show ?case by simp
next
  case (Cons i rng)
  from Cons.prems show ?case
    unfolding secant_plot_loop_Cons
    by (auto split: if_splits prod.splits sum.splits dest!: Cons.IH)
qed

section \<open>Whole runs\<close>

lemma bisect_plot_run_seqs:
  assumes "bisect_plot_run a b M err1 epsilon f = (ex, x_vals, fx_vals, lg)"
  shows "fx_vals = map f x_vals \<and> length lg = length x_vals \<and> length x_vals \<le> nat M"
  using bisect_plot_loop_seqs [of f err1 epsilon "[1..M]" a b "f a" "f b" "b - a" ex x_vals fx_vals lg]
    assms
  by (simp add: bisect_plot_run_def)

lemma newton_plot_run_loop:
  assumes "newton_plot_run f fprime x0 nmax err1 err2 epsilon = Inr (ex, x_vals, fx_vals, lg)"
  obtains ys fys where
    "newton_plot_loop f fprime err1 err2 epsilon [1..nmax] x0 (f x0) [] [] [] = Inr (ex, ys, fys, lg)"
    and "x_vals = x0 # ys" and "fx_vals = f x0 # fys"
  using assms
  by (simp add: newton_plot_run_def Let_def
        newton_plot_loop_acc [of _ _ _ _ _ _ _ _ "[x0]" "[f x0]" "[]"]
      split: sum.splits prod.splits)

lemma secant_plot_run_loop:
  assumes "secant_plot_run f x0 x1 nmax err1 err2 epsilon = Inr (ex, x_vals, fx_vals, lg)"
  obtains ys fys where
    "secant_plot_loop f err1 err2 epsilon [1..nmax] x0 x1 (f x0) (f x1) [] [] [] =
       Inr (ex, ys, fys, lg)"
    and "x_vals = x0 # x1 # ys" and "fx_vals = f x0 # f x1 # fys"
  using assms
  by (simp add: secant_plot_run_def Let_def
        secant_plot_loop_acc [of _ _ _ _ _ _ _ _ _ "[x0, x1]" "[f x0, f x1]" "[]"]
      split: sum.splits prod.splits)

lemma newton_plot_run_seqs:
  assumes "newton_plot_run f fprime x0 nmax err1 err2 epsilon = Inr (ex, x_vals, fx_vals, lg)"
  shows "fx_vals = map f x_vals \<and> length x_vals = Suc (length lg) \<and> length lg \<le> nat nmax"
proof -
  from assms obtain ys fys where
    loop: "newton_plot_loop f fprime err1 err2 epsilon [1..nmax] x0 (f x0) [] [] [] =
             Inr (ex, ys, fys, lg)"
    and out: "x_vals = x0 # ys" "fx_vals = f x0 # fys"
    by (rule newton_plot_run_loop)
  from newton_plot_loop_props [OF loop] out show ?thesis by simp
qed

lemma secant_plot_run_seqs:
  assumes "secant_plot_run f x0 x1 nmax err1 err2 epsilon = Inr (ex, x_vals, fx_vals, lg)"
  shows "fx_vals = map f x_vals \<and> length x_vals = Suc (Suc (length lg)) \<and> length lg \<le> nat nmax"
proof -
  from assms obtain ys fys where
    loop: "secant_plot_loop f err1 err2 epsilon [1..nmax] x0 x1 (f x0) (f x1) [] [] [] =
             Inr (ex, ys, fys, lg)"
    and out: "x_vals = x0 # x1 # ys" "fx_vals = f x0 # f x1 # fys"
    by (rule secant_plot_run_loop)
  from secant_plot_loop_props [OF loop] out show ?thesis by simp
qed

lemma bisect_plot_loop_width:
  "bisect_plot_loop f err1 epsilon rng a b fa fb e [] [] [] = (ex, ys, fys, zs) \<Longrightarrow>
   i < length zs \<Longrightarrow> snd (snd (zs ! i)) = e / 2 ^ Suc i"
proof (induction rng arbitrary: a b fa fb e ex ys fys zs i)
  case Nil
  then show ?case by simp
next
  case (Cons j rng)
  from Cons.prems show ?case
    unfolding bisect_plot_loop_Cons
    by (cases i) (auto split: if_splits prod.splits dest!: Cons.IH)
qed

lemma bisect_loop_not_Same_Sign:
  "bisect_loop f err1 epsilon rng a b fa fb e \<noteq> Same_Sign"
  by (induction rng arbitrary: a b fa fb e) (simp_all add: Let_def)

lemma bisect_plot_run_exit:
  assumes "bisect_plot_run a b M err1 epsilon f = (ex, x_vals, fx_vals, lg)"
  shows "ex = (if x_vals \<noteq> [] \<and>
                  (abs ((b - a) / 2 ^ length x_vals) < err1 \<or> abs (last fx_vals) < epsilon)
               then Converged else Exhausted)"
    and "ex = Exhausted \<longrightarrow> length x_vals = nat M"
    and "x_vals \<noteq> [] \<longrightarrow> snd (snd (last lg)) = (b - a) / 2 ^ length x_vals"
proof -
  from assms have loop:
    "bisect_plot_loop f err1 epsilon [1..M] a b (f a) (f b) (b - a) [] [] [] =
       (ex, x_vals, fx_vals, lg)"
    by (simp add: bisect_plot_run_def)
  note seqs = bisect_plot_loop_seqs [OF loop]
  note exit = bisect_plot_loop_exit [OF loop]
  show w: "x_vals \<noteq> [] \<longrightarrow> snd (snd (last lg)) = (b - a) / 2 ^ length x_vals"
  proof
    assume ne: "x_vals \<noteq> []"
    with seqs have "lg \<noteq> []" "length lg - 1 < length lg" by auto
    with bisect_plot_loop_width [OF loop, of "length lg - 1"] seqs ne
    show "snd (snd (last lg)) = (b - a) / 2 ^ length x_vals"
      by (simp add: last_conv_nth)
  qed
  from exit show "ex = Exhausted \<longrightarrow> length x_vals = nat M" by simp
  have fl: "x_vals \<noteq> [] \<Longrightarrow> last fx_vals = f (last x_vals)"
    using seqs by (simp add: last_map)
  from exit w fl show "ex = (if x_vals \<noteq> [] \<and>
                  (abs ((b - a) / 2 ^ length x_vals) < err1 \<or> abs (last fx_vals) < epsilon)
               then Converged else Exhausted)"
    by (cases ex) auto
qed

lemma newton_plot_run_steps:
  assumes "newton_plot_run f fprime x0 nmax err1 err2 epsilon = Inr (ex, x_vals, fx_vals, lg)"
    and "i < length lg"
  shows "lg ! i = (fprime (x_vals ! i), f (x_vals ! i) / fprime (x_vals ! i))"
    and "x_vals ! Suc i = x_vals ! i - f (x_vals ! i) / fprime (x_vals ! i)"
    and "epsilon \<le> abs (fprime (x_vals ! i))" and "fprime (x_vals ! i) \<noteq> 0"
proof -
  from assms(1) obtain ys fys where
    loop: "newton_plot_loop f fprime err1 err2 epsilon [1..nmax] x0 (f x0) [] [] [] =
             Inr (ex, ys, fys, lg)"
    and out: "x_vals = x0 # ys" "fx_vals = f x0 # fys"
    by (rule newton_plot_run_loop)
  note props = newton_plot_loop_props [OF loop]
  from props have fys: "f x0 # fys = map f (x0 # ys)" by simp
  from props assms(2) have i: "i < length (x0 # ys)" by simp
  have fi: "(f x0 # fys) ! i = f ((x0 # ys) ! i)"
    unfolding fys using i by (rule nth_map)
  from newton_plot_loop_steps [OF loop assms(2)] fi out
  show 1: "lg ! i = (fprime (x_vals ! i), f (x_vals ! i) / fprime (x_vals ! i))"
    and "x_vals ! Suc i = x_vals ! i - f (x_vals ! i) / fprime (x_vals ! i)"
    by simp_all
  from assms(2) have "lg ! i \<in> set lg" by simp
  with props have "\<not> abs (fst (lg ! i)) < epsilon \<and> fst (lg ! i) \<noteq> 0" by blast
  with 1 show "epsilon \<le> abs (fprime (x_vals ! i))" and "fprime (x_vals ! i) \<noteq> 0"
    by simp_all
qed

lemma secant_plot_run_steps:
  assumes "secant_plot_run f x0 x1 nmax err1 err2 epsilon = Inr (ex, x_vals, fx_vals, lg)"
    and "i < length lg"
  shows "lg ! i = (f (x_vals ! Suc i) - f (x_vals ! i),
                   f (x_vals ! Suc i) * (x_vals ! Suc i - x_vals ! i)
                     / (f (x_vals ! Suc i) - f (x_vals ! i)))"
    and "x_vals ! Suc (Suc i) = x_vals ! Suc i - snd (lg ! i)"
    and "epsilon \<le> abs (f (x_vals ! Suc i) - f (x_vals ! i))"
    and "f (x_vals ! Suc i) - f (x_vals ! i) \<noteq> 0"
proof -
  from assms(1) obtain ys fys where
    loop: "secant_plot_loop f err1 err2 epsilon [1..nmax] x0 x1 (f x0) (f x1) [] [] [] =
             Inr (ex, ys, fys, lg)"
    and out: "x_vals = x0 # x1 # ys" "fx_vals = f x0 # f x1 # fys"
    by (rule secant_plot_run_loop)
  note props = secant_plot_loop_props [OF loop]
  from props have fys: "f x1 # fys = map f (x1 # ys)" "f x0 # f x1 # fys = map f (x0 # x1 # ys)"
    by simp_all
  from props assms(2) have i: "i < length (x1 # ys)" "i < length (x0 # x1 # ys)" by simp_all
  have fi: "(f x1 # fys) ! i = f ((x1 # ys) ! i)"
    unfolding fys(1) using i(1) by (rule nth_map)
  have fi': "(f x0 # f x1 # fys) ! i = f ((x0 # x1 # ys) ! i)"
    unfolding fys(2) using i(2) by (rule nth_map)
  from secant_plot_loop_steps [OF loop assms(2)] fi fi' out
  show 1: "lg ! i = (f (x_vals ! Suc i) - f (x_vals ! i),
                   f (x_vals ! Suc i) * (x_vals ! Suc i - x_vals ! i)
                     / (f (x_vals ! Suc i) - f (x_vals ! i)))"
    and "x_vals ! Suc (Suc i) = x_vals ! Suc i - snd (lg ! i)"
    by simp_all
  from assms(2) have "lg ! i \<in> set lg" by simp
  with props have "\<not> abs (fst (lg ! i)) < epsilon \<and> fst (lg ! i) \<noteq> 0" by blast
  with 1 show "epsilon \<le> abs (f (x_vals ! Suc i) - f (x_vals ! i))"
    and "f (x_vals ! Suc i) - f (x_vals ! i) \<noteq> 0"
    by simp_all
qed

lemma newton_plot_run_error:
  assumes "newton_plot_run f fprime x0 nmax err1 err2 epsilon = Inl err"
  shows "epsilon \<le> 0"
proof -
  from assms have
    "newton_plot_loop f fprime err1 err2 epsilon [1..nmax] x0 (f x0) [] [] [] = Inl err"
    by (simp add: newton_plot_run_def Let_def
          newton_plot_loop_acc [of _ _ _ _ _ _ _ _ "[x0]" "[f x0]" "[]"]
        split: sum.splits prod.splits)
  then show ?thesis by (rule newton_plot_loop_error)
qed

lemma secant_plot_run_error:
  assumes "secant_plot_run f x0 x1 nmax err1 err2 epsilon = Inl err"
  shows "epsilon \<le> 0"
proof -
  from assms have
    "secant_plot_loop f err1 err2 epsilon [1..nmax] x0 x1 (f x0) (f x1) [] [] [] = Inl err"
    by (simp add: secant_plot_run_def Let_def
          secant_plot_loop_acc [of _ _ _ _ _ _ _ _ _ "[x0, x1]" "[f x0, f x1]" "[]"]
        split: sum.splits prod.splits)
  then show ?thesis by (rule secant_plot_loop_error)
qed

lemma exit_decision:
  assumes "ex \<noteq> Converged \<longrightarrow> ys \<noteq> [] \<longrightarrow> \<not> T"
    and "ex = Converged \<longrightarrow> ys \<noteq> [] \<and> T"
    and "ex = Small_Slope \<longrightarrow> length ys < n"
    and "ex = Exhausted \<longrightarrow> length ys = n"
  shows "ex = (if ys \<noteq> [] \<and> T then Converged
               else if length ys = n then Exhausted else Small_Slope)"
  using assms by (cases ex) auto

lemma newton_plot_run_exit:
  assumes "newton_plot_run f fprime x0 nmax err1 err2 epsilon = Inr (ex, x_vals, fx_vals, lg)"
  shows "ex = Converged \<longrightarrow>
           lg \<noteq> [] \<and> (abs (snd (last lg)) < err1 \<or> abs (f (last x_vals)) < err2)"
    and "ex = Small_Slope \<longrightarrow> abs (fprime (last x_vals)) < epsilon \<and> length lg < nat nmax"
    and "ex = Exhausted \<longrightarrow> length lg = nat nmax"
    and "ex = (if 2 \<le> length x_vals \<and>
                  (abs (x_vals ! (length x_vals - 2) - last x_vals) < err1 \<or>
                   abs (last fx_vals) < err2)
               then Converged
               else if length x_vals = Suc (nat nmax) then Exhausted else Small_Slope)"
proof -
  from assms obtain ys fys where
    loop: "newton_plot_loop f fprime err1 err2 epsilon [1..nmax] x0 (f x0) [] [] [] =
             Inr (ex, ys, fys, lg)"
    and out: "x_vals = x0 # ys" "fx_vals = f x0 # fys"
    by (rule newton_plot_run_loop)
  note props = newton_plot_loop_props [OF loop]
  note exit = newton_plot_loop_exit [OF loop]
  from props have len: "length lg = length ys" "length fys = length ys" by simp_all
  have fl: "last fx_vals = f (last x_vals)"
    using props out by (simp add: last_map)
  have fl': "ys \<noteq> [] \<Longrightarrow> last fys = last fx_vals"
    using out len by auto
  have d: "snd (last lg) = x_vals ! (length x_vals - 2) - last x_vals" if "ys \<noteq> []"
  proof -
    from that len have i: "length lg - 1 < length lg" and ne: "lg \<noteq> []" by auto
    from newton_plot_run_steps(1,2) [OF assms i]
    have "snd (lg ! (length lg - 1)) = x_vals ! (length lg - 1) - x_vals ! Suc (length lg - 1)"
      by simp
    with ne out len that show ?thesis
      by (simp add: last_conv_nth)
  qed
  from props out show "ex = Converged \<longrightarrow>
           lg \<noteq> [] \<and> (abs (snd (last lg)) < err1 \<or> abs (f (last x_vals)) < err2)"
    by auto
  from props exit out show
    "ex = Small_Slope \<longrightarrow> abs (fprime (last x_vals)) < epsilon \<and> length lg < nat nmax"
    by auto
  from props show "ex = Exhausted \<longrightarrow> length lg = nat nmax"
    by auto
  show "ex = (if 2 \<le> length x_vals \<and>
                  (abs (x_vals ! (length x_vals - 2) - last x_vals) < err1 \<or>
                   abs (last fx_vals) < err2)
               then Converged
               else if length x_vals = Suc (nat nmax) then Exhausted else Small_Slope)"
  proof -
    let ?T = "abs (snd (last lg)) < err1 \<or> abs (last fys) < err2"
    from exit have e1: "ex \<noteq> Converged \<longrightarrow> ys \<noteq> [] \<longrightarrow> \<not> ?T"
      and e2: "ex = Converged \<longrightarrow> ys \<noteq> [] \<and> ?T"
      and e3: "ex = Small_Slope \<longrightarrow> length ys < nat nmax"
      and e4: "ex = Exhausted \<longrightarrow> length ys = nat nmax"
      by simp_all
    note dec = exit_decision [OF e1 e2 e3 e4]
    have c: "(ys \<noteq> [] \<and> ?T) \<longleftrightarrow>
        2 \<le> length x_vals \<and>
        (abs (x_vals ! (length x_vals - 2) - last x_vals) < err1 \<or> abs (last fx_vals) < err2)"
    proof (cases "ys = []")
      case True
      with out show ?thesis by simp
    next
      case False
      with out have "2 \<le> length x_vals" by (cases ys) simp_all
      with False d [OF False] fl' [OF False] show ?thesis by simp
    qed
    have l: "length ys = nat nmax \<longleftrightarrow> length x_vals = Suc (nat nmax)"
      using out by simp
    from dec show ?thesis
      unfolding c l .
  qed
qed

lemma secant_plot_run_exit:
  assumes "secant_plot_run f x0 x1 nmax err1 err2 epsilon = Inr (ex, x_vals, fx_vals, lg)"
  shows "ex = Converged \<longrightarrow>
           lg \<noteq> [] \<and> (abs (snd (last lg)) < err1 \<or> abs (f (last x_vals)) < err2)"
    and "ex = Small_Slope \<longrightarrow>
           abs (f (x_vals ! Suc (length lg)) - f (x_vals ! length lg)) < epsilon \<and>
           length lg < nat nmax"
    and "ex = Exhausted \<longrightarrow> length lg = nat nmax"
    and "ex = (if 3 \<le> length x_vals \<and>
                  (abs (x_vals ! (length x_vals - 2) - last x_vals) < err1 \<or>
                   abs (last fx_vals) < err2)
               then Converged
               else if length x_vals = Suc (Suc (nat nmax)) then Exhausted else Small_Slope)"
proof -
  from assms obtain ys fys where
    loop: "secant_plot_loop f err1 err2 epsilon [1..nmax] x0 x1 (f x0) (f x1) [] [] [] =
             Inr (ex, ys, fys, lg)"
    and out: "x_vals = x0 # x1 # ys" "fx_vals = f x0 # f x1 # fys"
    by (rule secant_plot_run_loop)
  note props = secant_plot_loop_props [OF loop]
  note exit = secant_plot_loop_exit [OF loop]
  from props have len: "length lg = length ys" "length fys = length ys" by simp_all
  from props have fmap: "f x0 # f x1 # fys = map f (x0 # x1 # ys)" by simp
  have nth_f: "(f x0 # f x1 # fys) ! k = f ((x0 # x1 # ys) ! k)" if "k < Suc (Suc (length ys))" for k
    unfolding fmap using that by (intro nth_map) simp
  have fl': "ys \<noteq> [] \<Longrightarrow> last fys = last fx_vals"
    using out len by auto
  have d: "snd (last lg) = x_vals ! (length x_vals - 2) - last x_vals" if "ys \<noteq> []"
  proof -
    from that len have i: "length lg - 1 < length lg" and ne: "lg \<noteq> []" by auto
    from secant_plot_run_steps(2) [OF assms i]
    have "snd (lg ! (length lg - 1)) =
        x_vals ! Suc (length lg - 1) - x_vals ! Suc (Suc (length lg - 1))"
      by simp
    with ne out len that show ?thesis
      by (simp add: last_conv_nth)
  qed
  from props out show "ex = Converged \<longrightarrow>
           lg \<noteq> [] \<and> (abs (snd (last lg)) < err1 \<or> abs (f (last x_vals)) < err2)"
    by auto
  show "ex = Small_Slope \<longrightarrow>
           abs (f (x_vals ! Suc (length lg)) - f (x_vals ! length lg)) < epsilon \<and>
           length lg < nat nmax"
  proof
    assume ss: "ex = Small_Slope"
    from props have "ex = Small_Slope \<longrightarrow>
        abs ((f x0 # f x1 # fys) ! Suc (length fys) - (f x0 # f x1 # fys) ! length fys) < epsilon"
      by (elim conjE)
    with ss have "abs ((f x0 # f x1 # fys) ! Suc (length fys) -
        (f x0 # f x1 # fys) ! length fys) < epsilon" by blast
    with nth_f [of "Suc (length ys)"] nth_f [of "length ys"] len out
    have "abs (f (x_vals ! Suc (length lg)) - f (x_vals ! length lg)) < epsilon"
      by simp
    moreover from ss exit len have "length lg < nat nmax" by simp
    ultimately show "abs (f (x_vals ! Suc (length lg)) - f (x_vals ! length lg)) < epsilon \<and>
           length lg < nat nmax" ..
  qed
  from props show "ex = Exhausted \<longrightarrow> length lg = nat nmax"
    by auto
  show "ex = (if 3 \<le> length x_vals \<and>
                  (abs (x_vals ! (length x_vals - 2) - last x_vals) < err1 \<or>
                   abs (last fx_vals) < err2)
               then Converged
               else if length x_vals = Suc (Suc (nat nmax)) then Exhausted else Small_Slope)"
  proof -
    let ?T = "abs (snd (last lg)) < err1 \<or> abs (last fys) < err2"
    from exit have e1: "ex \<noteq> Converged \<longrightarrow> ys \<noteq> [] \<longrightarrow> \<not> ?T"
      and e2: "ex = Converged \<longrightarrow> ys \<noteq> [] \<and> ?T"
      and e3: "ex = Small_Slope \<longrightarrow> length ys < nat nmax"
      and e4: "ex = Exhausted \<longrightarrow> length ys = nat nmax"
      by simp_all
    note dec = exit_decision [OF e1 e2 e3 e4]
    have c: "(ys \<noteq> [] \<and> ?T) \<longleftrightarrow>
        3 \<le> length x_vals \<and>
        (abs (x_vals ! (length x_vals - 2) - last x_vals) < err1 \<or> abs (last fx_vals) < err2)"
    proof (cases "ys = []")
      case True
      with out show ?thesis by simp
    next
      case False
      with out have "3 \<le> length x_vals" by (cases ys) simp_all
      with False d [OF False] fl' [OF False] show ?thesis by simp
    qed
    have l: "length ys = nat nmax \<longleftrightarrow> length x_vals = Suc (Suc (nat nmax))"
      using out by simp
    from dec show ?thesis
      unfolding c l .
  qed
qed

section \<open>Three concrete runs on the second test function\<close>

lemma range_2: "[1..2] = [1, 2]"
  by (simp add: upto_rec1)

lemma bisect_f2_run:
  "bisect_plot_run 0 3 2 (1 / 10 ^ 12) (1 / 10 ^ 12) f2 =
     (Exhausted, [3 / 2, 3 / 4], [5 / 4, - (7 / 16)], [(0, 3, 3 / 2), (0, 3 / 2, 3 / 4)])"
  by (simp add: bisect_plot_run_def range_2 sign_def f2_def Let_def power2_eq_square)

lemma newton_f2_run:
  "newton_plot_run f2 f2_prime (3 / 2) 2 (1 / 10 ^ 12) (1 / 10 ^ 12) (1 / 10 ^ 12) =
     Inr (Exhausted, [3 / 2, 13 / 12, 313 / 312], [5 / 4, 25 / 144, 625 / 97344],
          [(3, 5 / 12), (13 / 6, 25 / 312)])"
  by (simp add: newton_plot_run_def range_2 f2_def f2_prime_def py_div_def Let_def
        power2_eq_square)

lemma secant_f2_run:
  "secant_plot_run f2 0 2 2 (1 / 10 ^ 12) (1 / 10 ^ 12) (1 / 10 ^ 12) =
     Inr (Exhausted, [0, 2, 1 / 2, 4 / 5], [- 1, 3, - (3 / 4), - (9 / 25)],
          [(4, 3 / 2), (- (15 / 4), - (3 / 10))])"
  by (simp add: secant_plot_run_def range_2 f2_def py_div_def Let_def power2_eq_square)

section \<open>Bisection: the bracket at every pass\<close>

text \<open>
  Claim C2. For every \<open>f\<close>, \<open>a\<close>, \<open>b\<close> with \<open>sign (f a) \<noteq> sign (f b)\<close>, a run of
  \<^verbatim>\<open>bisect_method_with_plot\<close> keeps the bracket invariant at every pass \<open>i\<close>: the bracket
  \<open>(a_i, b_i)\<close> in force when the midpoint \<open>c_i\<close> is computed has
  \<open>sign (f a_i) \<noteq> sign (f b_i)\<close>, \<open>c_i\<close> (the \<open>i\<close>-th entry of \<^verbatim>\<open>x_vals\<close>) is its midpoint, the
  first bracket is \<open>(a, b)\<close>, and the root estimate, the last entry of \<^verbatim>\<open>x_vals\<close>, is the
  midpoint of the last such bracket. Continuity of \<open>f\<close> is not needed.
\<close>

theorem bisect_bracket_invariant:
  assumes "sign (f a) \<noteq> sign (f b)"
    and "bisect_plot_run a b M err1 epsilon f = (ex, x_vals, fx_vals, lg)"
  shows "bisect_method_with_plot a b M err1 epsilon f = Seqs x_vals fx_vals \<and>
    length lg = length x_vals \<and>
    (\<forall>i < length x_vals.
       case lg ! i of (a_i, b_i, e_i) \<Rightarrow>
         sign (f a_i) \<noteq> sign (f b_i) \<and> x_vals ! i = a_i + (b_i - a_i) / 2) \<and>
    (x_vals \<noteq> [] \<longrightarrow>
       (case hd lg of (a_1, b_1, e_1) \<Rightarrow> a_1 = a \<and> b_1 = b) \<and>
       (case last lg of (a_n, b_n, e_n) \<Rightarrow>
          sign (f a_n) \<noteq> sign (f b_n) \<and> last x_vals = a_n + (b_n - a_n) / 2))"
proof -
  from assms(2) have loop:
    "bisect_plot_loop f err1 epsilon [1..M] a b (f a) (f b) (b - a) [] [] [] =
       (ex, x_vals, fx_vals, lg)"
    by (simp add: bisect_plot_run_def)
  have ret: "bisect_method_with_plot a b M err1 epsilon f = Seqs x_vals fx_vals"
    using assms by (simp add: bisect_method_with_plot_def)
  have len: "length lg = length x_vals"
    using bisect_plot_loop_seqs [OF loop] by simp
  have all: "list_all2 (bracketing f) x_vals lg"
    using bisect_plot_loop_bracket [OF loop assms(1)] by simp
  have nth: "sign (f a_i) \<noteq> sign (f b_i) \<and> x_vals ! i = a_i + (b_i - a_i) / 2"
    if "i < length x_vals" and "lg ! i = (a_i, b_i, e_i)" for i a_i b_i e_i
  proof -
    from all that(1) have "bracketing f (x_vals ! i) (lg ! i)"
      by (simp add: list_all2_conv_all_nth)
    with that(2) show ?thesis by simp
  qed
  have first: "a_1 = a \<and> b_1 = b" if "x_vals \<noteq> []" and "hd lg = (a_1, b_1, e_1)" for a_1 b_1 e_1
  proof -
    from that(1) loop have "[1..M] \<noteq> []" by (cases "[1..M]") auto
    then obtain i rng where "[1..M] = i # rng" by (cases "[1..M]") auto
    with loop have "hd lg = (a, b, (b - a) / 2)"
      using bisect_plot_loop_first [of f err1 epsilon i rng a b "f a" "f b" "b - a"] by simp
    with that(2) show ?thesis by simp
  qed
  have last: "sign (f a_n) \<noteq> sign (f b_n) \<and> last x_vals = a_n + (b_n - a_n) / 2"
    if "x_vals \<noteq> []" and "last lg = (a_n, b_n, e_n)" for a_n b_n e_n
  proof -
    from that(1) len have "lg \<noteq> []" by auto
    with that len have "lg ! (length x_vals - 1) = (a_n, b_n, e_n)"
      by (simp add: last_conv_nth)
    moreover from that(1) have "length x_vals - 1 < length x_vals" by simp
    ultimately have "sign (f a_n) \<noteq> sign (f b_n) \<and>
        x_vals ! (length x_vals - 1) = a_n + (b_n - a_n) / 2"
      by (rule nth [rotated])
    with that(1) show ?thesis by (simp add: last_conv_nth)
  qed
  from ret len nth first last show ?thesis
    by (auto split: prod.splits)
qed

theorem bisect_bracket_invariant_witness:
  "sign (f2 0) \<noteq> sign (f2 3) \<and>
   bisect_plot_run 0 3 2 (1 / 10 ^ 12) (1 / 10 ^ 12) f2 =
     (Exhausted, [3 / 2, 3 / 4], [5 / 4, - (7 / 16)], [(0, 3, 3 / 2), (0, 3 / 2, 3 / 4)]) \<and>
   bisect_method_with_plot 0 3 2 (1 / 10 ^ 12) (1 / 10 ^ 12) f2 =
     Seqs [3 / 2, 3 / 4] [5 / 4, - (7 / 16)] \<and>
   sign (f2 0) \<noteq> sign (f2 (3 / 2)) \<and> (3 / 4 :: real) = 0 + (3 / 2 - 0) / 2"
proof -
  have h1: "sign (f2 0) \<noteq> sign (f2 3)"
    by (simp add: sign_def f2_def)
  have h2: "bisect_plot_run 0 3 2 (1 / 10 ^ 12) (1 / 10 ^ 12) f2 =
     (Exhausted, [3 / 2, 3 / 4], [5 / 4, - (7 / 16)], [(0, 3, 3 / 2), (0, 3 / 2, 3 / 4)])"
    by (simp add: bisect_plot_run_def sign_def f2_def Let_def power2_eq_square upto_rec1)
  from bisect_bracket_invariant [OF h1 h2] h1 h2 show ?thesis
    by simp
qed

section \<open>Bisection: brackets without a sign change\<close>

text \<open>
  Claim C3. For every \<open>f\<close>, \<open>a\<close>, \<open>b\<close> with \<open>sign (f a) = sign (f b)\<close> at entry, both
  bisection functions return the string \<^verbatim>\<open>"Same Sign"\<close> before the loop: the value is no
  pair of sequences and no root string, and it is the same for every function that agrees
  with \<open>f\<close> at \<open>a\<close> and \<open>b\<close>, so no midpoint value enters it.
\<close>

theorem bisect_same_sign_fails:
  assumes "sign (f a) = sign (f b)"
  shows "bisect_method a b M err1 epsilon f = Same_Sign \<and>
    bisect_method_with_plot a b M err1 epsilon f = Same_Sign \<and>
    (\<forall>x_vals fx_vals. bisect_method_with_plot a b M err1 epsilon f \<noteq> Seqs x_vals fx_vals) \<and>
    (\<forall>c fc. bisect_method a b M err1 epsilon f \<noteq> Root_found c fc) \<and>
    (\<forall>g. g a = f a \<and> g b = f b \<longrightarrow>
       bisect_method a b M err1 epsilon g = Same_Sign \<and>
       bisect_method_with_plot a b M err1 epsilon g = Same_Sign)"
  using assms by (simp add: bisect_method_def bisect_method_with_plot_def)

theorem bisect_same_sign_fails_witness:
  "sign (f2 (- 2)) = sign (f2 2) \<and>
   bisect_method (- 2) 2 100 (1 / 10 ^ 12) (1 / 10 ^ 12) f2 = Same_Sign \<and>
   bisect_method_with_plot (- 2) 2 100 (1 / 10 ^ 12) (1 / 10 ^ 12) f2 = Same_Sign \<and>
   bisect_method_with_plot (- 2) 2 100 (1 / 10 ^ 12) (1 / 10 ^ 12) (\<lambda>x. 3) = Same_Sign"
proof -
  have h: "sign (f2 (- 2)) = sign (f2 2)"
    by (simp add: sign_def f2_def)
  have g: "(\<lambda>x. 3) (- 2) = f2 (- 2) \<and> (\<lambda>x. 3) 2 = f2 2"
    by (simp add: f2_def)
  note fails = bisect_same_sign_fails [where f = f2 and a = "- 2" and b = 2 and M = 100
      and ?err1.0 = "1 / 10 ^ 12" and epsilon = "1 / 10 ^ 12", OF h]
  from fails have "\<forall>g. g (- 2) = f2 (- 2) \<and> g 2 = f2 2 \<longrightarrow>
       bisect_method (- 2) 2 100 (1 / 10 ^ 12) (1 / 10 ^ 12) g = Same_Sign \<and>
       bisect_method_with_plot (- 2) 2 100 (1 / 10 ^ 12) (1 / 10 ^ 12) g = Same_Sign"
    by (elim conjE)
  from this [rule_format, of "\<lambda>x. 3"] g fails h show ?thesis
    by simp
qed

section \<open>Bisection: the first midpoint\<close>

text \<open>
  With an iteration cap of 0 the loop of \<^verbatim>\<open>bisect_method_with_plot\<close> is not entered, although
  the bracket has a sign change: both returned sequences are empty.
\<close>

theorem bisect_no_midpoint_counterexample:
  "sign (f2 0) \<noteq> sign (f2 2) \<and>
   bisect_method_with_plot 0 2 0 (1 / 10 ^ 12) (1 / 10 ^ 12) f2 = Seqs [] []"
  by (simp add: bisect_method_with_plot_def bisect_plot_run_def sign_def f2_def)

text \<open>
  Claim C6, amended. For every \<open>f\<close>, \<open>a\<close>, \<open>b\<close> with \<open>sign (f a) \<noteq> sign (f b)\<close> at entry and an
  iteration cap \<open>M \<ge> 1\<close>, whatever the tolerances and whatever \<open>f a\<close> is,
  \<^verbatim>\<open>bisect_method_with_plot\<close> evaluates the midpoint of \<open>(a, b)\<close>: the returned sequences are
  not empty and start with that midpoint and its function value.
\<close>

theorem bisect_first_midpoint:
  assumes "sign (f a) \<noteq> sign (f b)" and "1 \<le> M"
  shows "\<exists>x_vals fx_vals.
    bisect_method_with_plot a b M err1 epsilon f =
      Seqs ((a + (b - a) / 2) # x_vals) (f (a + (b - a) / 2) # fx_vals)"
proof -
  from assms(2) have rng: "[1..M] = 1 # [2..M]"
    by (simp add: upto_rec1)
  obtain ex ys fys zs where loop:
    "bisect_plot_loop f err1 epsilon (1 # [2..M]) a b (f a) (f b) (b - a) [] [] [] =
       (ex, ys, fys, zs)"
    by (cases "bisect_plot_loop f err1 epsilon (1 # [2..M]) a b (f a) (f b) (b - a) [] [] []")
  from bisect_plot_loop_first [OF loop] obtain ys' where ys: "ys = (a + (b - a) / 2) # ys'"
    by (cases ys) auto
  from bisect_plot_loop_seqs [OF loop] ys have "fys = f (a + (b - a) / 2) # map f ys'"
    by simp
  with assms(1) rng loop ys show ?thesis
    by (simp add: bisect_method_with_plot_def bisect_plot_run_def)
qed

theorem bisect_first_midpoint_witness:
  "sign ((\<lambda>x. x) (- (1 / 10 ^ 13))) \<noteq> sign ((\<lambda>x. x) 1) \<and> (1::int) \<le> 1 \<and>
   abs ((\<lambda>x::real. x) (- (1 / 10 ^ 13))) < 1 / 10 ^ 12 \<and>
   (\<exists>x_vals fx_vals.
     bisect_method_with_plot (- (1 / 10 ^ 13)) 1 1 (1 / 10 ^ 12) (1 / 10 ^ 12) (\<lambda>x. x) =
       Seqs ((- (1 / 10 ^ 13) + (1 - - (1 / 10 ^ 13)) / 2) # x_vals)
            ((- (1 / 10 ^ 13) + (1 - - (1 / 10 ^ 13)) / 2) # fx_vals))"
proof -
  have h1: "sign ((\<lambda>x. x) (- (1 / 10 ^ 13))) \<noteq> sign ((\<lambda>x. x) 1)"
    by (simp add: sign_def)
  have h2: "(1::int) \<le> 1" by simp
  have h3: "abs ((\<lambda>x::real. x) (- (1 / 10 ^ 13))) < 1 / 10 ^ 12" by simp
  from bisect_first_midpoint [OF h1 h2, of "1 / 10 ^ 12" "1 / 10 ^ 12"] h1 h2 h3
  show ?thesis by simp
qed

section \<open>Bisection on the example of main.py\<close>

text \<open>
  Claim C7. On \<open>f2 x = x ^ 2 - 1\<close> with the bracket \<open>(0, 2)\<close>, value tolerance \<open>1 / 10 ^ 12\<close> and any
  iteration cap of at least 50, \<^verbatim>\<open>bisect_method_with_plot\<close> converges in its first pass: it
  returns the single midpoint 1 with \<open>f2 1 = 0\<close>, below the tolerance, within 50 passes.
\<close>

theorem bisect_f2_converges:
  assumes "50 \<le> M"
  shows "bisect_plot_run 0 2 M err1 (1 / 10 ^ 12) f2 = (Converged, [1], [0], [(0, 2, 1)]) \<and>
    bisect_method_with_plot 0 2 M err1 (1 / 10 ^ 12) f2 = Seqs [1] [0] \<and>
    abs (f2 1) < 1 / 10 ^ 12 \<and> length [1 :: real] \<le> 50"
proof -
  from assms have rng: "[1..M] = 1 # [2..M]"
    by (simp add: upto_rec1)
  have run: "bisect_plot_run 0 2 M err1 (1 / 10 ^ 12) f2 = (Converged, [1], [0], [(0, 2, 1)])"
    by (simp add: bisect_plot_run_def rng f2_def Let_def)
  have "sign (f2 0) \<noteq> sign (f2 2)"
    by (simp add: sign_def f2_def)
  with run show ?thesis
    by (simp add: bisect_method_with_plot_def f2_def)
qed

theorem bisect_f2_converges_witness:
  "(50::int) \<le> 100 \<and>
   bisect_method_with_plot 0 2 100 (1 / 10 ^ 12) (1 / 10 ^ 12) f2 = Seqs [1] [0]"
  using bisect_f2_converges [of 100 "1 / 10 ^ 12"] by simp

section \<open>Newton and secant: the slope guard comes before the division\<close>

text \<open>
  Claim C1. In every pass of every run of \<^verbatim>\<open>newton_method_with_plot\<close> and
  \<^verbatim>\<open>secant_method_with_plot\<close> the division is reached only after the smallness guard has
  passed. Newton: the divisor of pass \<open>i\<close> is \<open>fprime\<close> at the \<open>i\<close>-th iterate and its absolute
  value is at least \<open>epsilon\<close>; when \<open>\<bar>fprime x\<bar> < epsilon\<close> the loop stops at once, with the
  sequences and the log of divisions unchanged. Secant: the divisor of pass \<open>i\<close> is the
  difference of the function values at the two current iterates and its absolute value is at
  least \<open>epsilon\<close>; when it is smaller the loop stops at once. A division by zero can be raised
  only when \<open>epsilon \<le> 0\<close>, where the guard lets a zero slope pass.
\<close>

theorem slope_guard_before_division:
  "(newton_plot_run f fprime x0 nmax err1 err2 epsilon = Inr (ex, x_vals, fx_vals, lg) \<and>
    i < length lg \<longrightarrow>
      lg ! i = (fprime (x_vals ! i), f (x_vals ! i) / fprime (x_vals ! i)) \<and>
      x_vals ! Suc i = x_vals ! i - f (x_vals ! i) / fprime (x_vals ! i) \<and>
      epsilon \<le> abs (fprime (x_vals ! i)) \<and> fprime (x_vals ! i) \<noteq> 0) \<and>
   (abs (fprime x) < epsilon \<longrightarrow>
      newton_plot_loop f fprime err1 err2 epsilon (k # rng) x fx xs fxs zs =
        Inr (Small_Slope, xs, fxs, zs) \<and>
      newton_loop f fprime err1 err2 epsilon (k # rng) x fx = Inr PyNone) \<and>
   (newton_plot_run f fprime x0 nmax err1 err2 epsilon = Inl err \<longrightarrow> epsilon \<le> 0) \<and>
   (secant_plot_run f x0' x1' nmax err1 err2 epsilon = Inr (ex', x_vals', fx_vals', lg') \<and>
    i' < length lg' \<longrightarrow>
      lg' ! i' = (f (x_vals' ! Suc i') - f (x_vals' ! i'),
                  f (x_vals' ! Suc i') * (x_vals' ! Suc i' - x_vals' ! i')
                    / (f (x_vals' ! Suc i') - f (x_vals' ! i'))) \<and>
      x_vals' ! Suc (Suc i') = x_vals' ! Suc i' - snd (lg' ! i') \<and>
      epsilon \<le> abs (f (x_vals' ! Suc i') - f (x_vals' ! i')) \<and>
      f (x_vals' ! Suc i') - f (x_vals' ! i') \<noteq> 0) \<and>
   (abs (fx1 - fx0) < epsilon \<longrightarrow>
      secant_plot_loop f err1 err2 epsilon (k # rng) y0 y1 fx0 fx1 xs fxs zs =
        Inr (Small_Slope, xs, fxs, zs) \<and>
      secant_loop f err1 err2 epsilon (k # rng) y0 y1 fx0 fx1 = Inr PyNone) \<and>
   (secant_plot_run f x0' x1' nmax err1 err2 epsilon = Inl err \<longrightarrow> epsilon \<le> 0)"
proof (intro conjI impI)
  assume "newton_plot_run f fprime x0 nmax err1 err2 epsilon = Inr (ex, x_vals, fx_vals, lg) \<and>
    i < length lg"
  then have run: "newton_plot_run f fprime x0 nmax err1 err2 epsilon =
      Inr (ex, x_vals, fx_vals, lg)" and i: "i < length lg"
    by simp_all
  from newton_plot_run_steps [OF run i]
  show "lg ! i = (fprime (x_vals ! i), f (x_vals ! i) / fprime (x_vals ! i))"
    and "x_vals ! Suc i = x_vals ! i - f (x_vals ! i) / fprime (x_vals ! i)"
    and "epsilon \<le> abs (fprime (x_vals ! i))" and "fprime (x_vals ! i) \<noteq> 0"
    by simp_all
next
  assume "abs (fprime x) < epsilon"
  then show "newton_plot_loop f fprime err1 err2 epsilon (k # rng) x fx xs fxs zs =
        Inr (Small_Slope, xs, fxs, zs)"
    and "newton_loop f fprime err1 err2 epsilon (k # rng) x fx = Inr PyNone"
    by simp_all
next
  assume "newton_plot_run f fprime x0 nmax err1 err2 epsilon = Inl err"
  then show "epsilon \<le> 0" by (rule newton_plot_run_error)
next
  assume "secant_plot_run f x0' x1' nmax err1 err2 epsilon = Inr (ex', x_vals', fx_vals', lg') \<and>
    i' < length lg'"
  then have run: "secant_plot_run f x0' x1' nmax err1 err2 epsilon =
      Inr (ex', x_vals', fx_vals', lg')" and i: "i' < length lg'"
    by simp_all
  from secant_plot_run_steps [OF run i]
  show "lg' ! i' = (f (x_vals' ! Suc i') - f (x_vals' ! i'),
                  f (x_vals' ! Suc i') * (x_vals' ! Suc i' - x_vals' ! i')
                    / (f (x_vals' ! Suc i') - f (x_vals' ! i')))"
    and "x_vals' ! Suc (Suc i') = x_vals' ! Suc i' - snd (lg' ! i')"
    and "epsilon \<le> abs (f (x_vals' ! Suc i') - f (x_vals' ! i'))"
    and "f (x_vals' ! Suc i') - f (x_vals' ! i') \<noteq> 0"
    by simp_all
next
  assume "abs (fx1 - fx0) < epsilon"
  then show "secant_plot_loop f err1 err2 epsilon (k # rng) y0 y1 fx0 fx1 xs fxs zs =
        Inr (Small_Slope, xs, fxs, zs)"
    and "secant_loop f err1 err2 epsilon (k # rng) y0 y1 fx0 fx1 = Inr PyNone"
    by simp_all
next
  assume "secant_plot_run f x0' x1' nmax err1 err2 epsilon = Inl err"
  then show "epsilon \<le> 0" by (rule secant_plot_run_error)
qed

theorem slope_guard_before_division_witness:
  "newton_plot_run f2 f2_prime (3 / 2) 2 (1 / 10 ^ 12) (1 / 10 ^ 12) (1 / 10 ^ 12) =
     Inr (Exhausted, [3 / 2, 13 / 12, 313 / 312], [5 / 4, 25 / 144, 625 / 97344],
          [(3, 5 / 12), (13 / 6, 25 / 312)]) \<and>
   (1 :: real) / 10 ^ 12 \<le> abs (f2_prime (13 / 12)) \<and>
   abs (f2_prime 0) < 1 / 10 ^ 12 \<and>
   newton_plot_loop f2 f2_prime (1 / 10 ^ 12) (1 / 10 ^ 12) (1 / 10 ^ 12) [1] 0 (- 1) [0] [- 1] [] =
     Inr (Small_Slope, [0], [- 1], []) \<and>
   newton_plot_run f2 f2_prime 0 2 0 0 0 = Inl ZeroDivisionError \<and>
   secant_plot_run f2 0 2 2 (1 / 10 ^ 12) (1 / 10 ^ 12) (1 / 10 ^ 12) =
     Inr (Exhausted, [0, 2, 1 / 2, 4 / 5], [- 1, 3, - (3 / 4), - (9 / 25)],
          [(4, 3 / 2), (- (15 / 4), - (3 / 10))]) \<and>
   (1 :: real) / 10 ^ 12 \<le> abs (f2 (1 / 2) - f2 2) \<and>
   abs (3 - 3 :: real) < 1 / 10 ^ 12 \<and>
   secant_plot_loop f2 (1 / 10 ^ 12) (1 / 10 ^ 12) (1 / 10 ^ 12) [1] (- 2) 2 3 3 [- 2, 2] [3, 3] [] =
     Inr (Small_Slope, [- 2, 2], [3, 3], []) \<and>
   secant_plot_run f2 (- 2) 2 2 0 0 0 = Inl ZeroDivisionError"
proof -
  have g: "abs (f2_prime 0) < 1 / 10 ^ 12" "abs (3 - 3 :: real) < 1 / 10 ^ 12"
    by (simp_all add: f2_prime_def)
  have z: "newton_plot_run f2 f2_prime 0 2 0 0 0 = Inl ZeroDivisionError"
    "secant_plot_run f2 (- 2) 2 2 0 0 0 = Inl ZeroDivisionError"
    by (simp_all add: newton_plot_run_def secant_plot_run_def range_2 f2_def f2_prime_def
          py_div_def Let_def)
  note t = slope_guard_before_division [where f = f2 and fprime = f2_prime and ?x0.0 = "3 / 2"
      and nmax = 2 and ?err1.0 = "1 / 10 ^ 12" and ?err2.0 = "1 / 10 ^ 12"
      and epsilon = "1 / 10 ^ 12" and ex = Exhausted
      and x_vals = "[3 / 2, 13 / 12, 313 / 312]" and fx_vals = "[5 / 4, 25 / 144, 625 / 97344]"
      and lg = "[(3, 5 / 12), (13 / 6, 25 / 312)]" and i = 1
      and x = 0 and k = 1 and rng = "[]" and fx = "- 1" and xs = "[0]" and fxs = "[- 1]"
      and zs = "[]"
      and ?x0'.0 = 0 and ?x1'.0 = 2 and ex' = Exhausted
      and x_vals' = "[0, 2, 1 / 2, 4 / 5]" and fx_vals' = "[- 1, 3, - (3 / 4), - (9 / 25)]"
      and lg' = "[(4, 3 / 2), (- (15 / 4), - (3 / 10))]" and i' = 1]
  note s = slope_guard_before_division [where f = f2 and epsilon = "1 / 10 ^ 12"
      and ?fx0.0 = 3 and ?fx1.0 = 3 and k = 1 and rng = "[]" and ?y0.0 = "- 2" and ?y1.0 = 2
      and xs = "[- 2, 2]" and fxs = "[3, 3]" and zs = "[]"
      and ?err1.0 = "1 / 10 ^ 12" and ?err2.0 = "1 / 10 ^ 12"]
  from t s newton_f2_run secant_f2_run g z show ?thesis
    by simp
qed

section \<open>The two returned sequences\<close>

text \<open>
  Claim C10. Whenever \<^verbatim>\<open>bisect_method_with_plot\<close>, \<^verbatim>\<open>newton_method_with_plot\<close> or
  \<^verbatim>\<open>secant_method_with_plot\<close> returns a pair of sequences, the two have the same length and
  \<^verbatim>\<open>fx_vals[i]\<close> is \<open>f\<close> at \<^verbatim>\<open>x_vals[i]\<close> for every index \<open>i\<close>.
\<close>

theorem plot_sequences_consistent:
  "(\<forall>x_vals fx_vals.
      bisect_method_with_plot a b M err1 epsilon f = Seqs x_vals fx_vals \<longrightarrow>
      length x_vals = length fx_vals \<and> (\<forall>i < length x_vals. fx_vals ! i = f (x_vals ! i))) \<and>
   (\<forall>x_vals fx_vals.
      newton_method_with_plot f fprime x0 nmax err1 err2 epsilon = Inr (Seqs x_vals fx_vals) \<longrightarrow>
      length x_vals = length fx_vals \<and> (\<forall>i < length x_vals. fx_vals ! i = f (x_vals ! i))) \<and>
   (\<forall>x_vals fx_vals.
      secant_method_with_plot f x0 x1 nmax err1 err2 epsilon = Inr (Seqs x_vals fx_vals) \<longrightarrow>
      length x_vals = length fx_vals \<and> (\<forall>i < length x_vals. fx_vals ! i = f (x_vals ! i)))"
proof (intro conjI allI impI)
  fix x_vals fx_vals
  assume "bisect_method_with_plot a b M err1 epsilon f = Seqs x_vals fx_vals"
  then obtain ex lg where "bisect_plot_run a b M err1 epsilon f = (ex, x_vals, fx_vals, lg)"
    by (auto simp: bisect_method_with_plot_def Let_def split: if_splits prod.splits)
  from bisect_plot_run_seqs [OF this] have eq: "fx_vals = map f x_vals" by simp
  from eq show "length x_vals = length fx_vals" by simp
  fix i assume "i < length x_vals"
  with eq show "fx_vals ! i = f (x_vals ! i)" by simp
next
  fix x_vals fx_vals
  assume "newton_method_with_plot f fprime x0 nmax err1 err2 epsilon = Inr (Seqs x_vals fx_vals)"
  then obtain ex lg where
    "newton_plot_run f fprime x0 nmax err1 err2 epsilon = Inr (ex, x_vals, fx_vals, lg)"
    by (auto simp: newton_method_with_plot_def split: sum.splits prod.splits)
  from newton_plot_run_seqs [OF this] have eq: "fx_vals = map f x_vals" by simp
  from eq show "length x_vals = length fx_vals" by simp
  fix i assume "i < length x_vals"
  with eq show "fx_vals ! i = f (x_vals ! i)" by simp
next
  fix x_vals fx_vals
  assume "secant_method_with_plot f x0 x1 nmax err1 err2 epsilon = Inr (Seqs x_vals fx_vals)"
  then obtain ex lg where
    "secant_plot_run f x0 x1 nmax err1 err2 epsilon = Inr (ex, x_vals, fx_vals, lg)"
    by (auto simp: secant_method_with_plot_def split: sum.splits prod.splits)
  from secant_plot_run_seqs [OF this] have eq: "fx_vals = map f x_vals" by simp
  from eq show "length x_vals = length fx_vals" by simp
  fix i assume "i < length x_vals"
  with eq show "fx_vals ! i = f (x_vals ! i)" by simp
qed

theorem plot_sequences_consistent_witness:
  "bisect_method_with_plot 0 3 2 (1 / 10 ^ 12) (1 / 10 ^ 12) f2 =
     Seqs [3 / 2, 3 / 4] [5 / 4, - (7 / 16)] \<and>
   newton_method_with_plot f2 f2_prime (3 / 2) 2 (1 / 10 ^ 12) (1 / 10 ^ 12) (1 / 10 ^ 12) =
     Inr (Seqs [3 / 2, 13 / 12, 313 / 312] [5 / 4, 25 / 144, 625 / 97344]) \<and>
   secant_method_with_plot f2 0 2 2 (1 / 10 ^ 12) (1 / 10 ^ 12) (1 / 10 ^ 12) =
     Inr (Seqs [0, 2, 1 / 2, 4 / 5] [- 1, 3, - (3 / 4), - (9 / 25)]) \<and>
   [5 / 4, - (7 / 16)] ! 1 = f2 ([3 / 2, 3 / 4] ! 1) \<and>
   [5 / 4, 25 / 144, 625 / 97344] ! 2 = f2 ([3 / 2, 13 / 12, 313 / 312] ! 2) \<and>
   [- 1, 3, - (3 / 4), - (9 / 25)] ! 3 = f2 ([0, 2, 1 / 2, 4 / 5] ! 3)"
proof -
  have b: "bisect_method_with_plot 0 3 2 (1 / 10 ^ 12) (1 / 10 ^ 12) f2 =
     Seqs [3 / 2, 3 / 4] [5 / 4, - (7 / 16)]"
    unfolding bisect_method_with_plot_def bisect_f2_run by (simp add: sign_def f2_def)
  have n: "newton_method_with_plot f2 f2_prime (3 / 2) 2 (1 / 10 ^ 12) (1 / 10 ^ 12) (1 / 10 ^ 12) =
     Inr (Seqs [3 / 2, 13 / 12, 313 / 312] [5 / 4, 25 / 144, 625 / 97344])"
    unfolding newton_method_with_plot_def newton_f2_run by simp
  have s: "secant_method_with_plot f2 0 2 2 (1 / 10 ^ 12) (1 / 10 ^ 12) (1 / 10 ^ 12) =
     Inr (Seqs [0, 2, 1 / 2, 4 / 5] [- 1, 3, - (3 / 4), - (9 / 25)])"
    unfolding secant_method_with_plot_def secant_f2_run by simp
  note t = plot_sequences_consistent [where a = 0 and b = 3 and M = 2 and f = f2
      and fprime = f2_prime and ?x0.0 = "3 / 2" and nmax = 2
      and ?err1.0 = "1 / 10 ^ 12" and ?err2.0 = "1 / 10 ^ 12" and epsilon = "1 / 10 ^ 12"]
  note u = plot_sequences_consistent [where f = f2 and ?x0.0 = 0 and ?x1.0 = 2 and nmax = 2
      and ?err1.0 = "1 / 10 ^ 12" and ?err2.0 = "1 / 10 ^ 12" and epsilon = "1 / 10 ^ 12"]
  from t have tb: "fx_vals ! i = f2 (x_vals ! i)"
    if "bisect_method_with_plot 0 3 2 (1 / 10 ^ 12) (1 / 10 ^ 12) f2 = Seqs x_vals fx_vals"
      and "i < length x_vals" for x_vals fx_vals i
    using that by blast
  from t have tn: "fx_vals ! i = f2 (x_vals ! i)"
    if "newton_method_with_plot f2 f2_prime (3 / 2) 2 (1 / 10 ^ 12) (1 / 10 ^ 12) (1 / 10 ^ 12) =
        Inr (Seqs x_vals fx_vals)"
      and "i < length x_vals" for x_vals fx_vals i
    using that by blast
  from u have ts: "fx_vals ! i = f2 (x_vals ! i)"
    if "secant_method_with_plot f2 0 2 2 (1 / 10 ^ 12) (1 / 10 ^ 12) (1 / 10 ^ 12) =
        Inr (Seqs x_vals fx_vals)"
      and "i < length x_vals" for x_vals fx_vals i
    using that by blast
  have "[5 / 4, - (7 / 16)] ! 1 = f2 ([3 / 2, 3 / 4] ! 1)"
    by (rule tb [OF b]) simp
  moreover have "[5 / 4, 25 / 144, 625 / 97344] ! 2 = f2 ([3 / 2, 13 / 12, 313 / 312] ! 2)"
    by (rule tn [OF n]) simp
  moreover have "[- 1, 3, - (3 / 4), - (9 / 25)] ! 3 = f2 ([0, 2, 1 / 2, 4 / 5] ! 3)"
    by (rule ts [OF s]) simp
  ultimately show ?thesis using b n s by blast
qed

section \<open>How the loops end\<close>

text \<open>
  A Newton run of \<^verbatim>\<open>newton_method_with_plot\<close> with the cap and tolerances of \<^verbatim>\<open>main.py\<close> on
  \<open>x ^ 2 + 1\<close> from 1: the first step leads to 0, where the derivative vanishes, and the
  guard stops the loop in the second pass. At the end neither tolerance is met by the last
  function value 1 or the last step 1, and one pass was completed, not 100.
\<close>

theorem exit_conditions_counterexample:
  "newton_plot_run (\<lambda>x. x ^ 2 + 1) (\<lambda>x. 2 * x) 1 100 (1 / 10 ^ 12) (1 / 10 ^ 12) (1 / 10 ^ 12) =
     Inr (Small_Slope, [1, 0], [2, 1], [(2, 1)]) \<and>
   newton_method_with_plot (\<lambda>x. x ^ 2 + 1) (\<lambda>x. 2 * x) 1 100
       (1 / 10 ^ 12) (1 / 10 ^ 12) (1 / 10 ^ 12) = Inr (Seqs [1, 0] [2, 1]) \<and>
   \<not> abs ((\<lambda>x :: real. x ^ 2 + 1) 0) < 1 / 10 ^ 12 \<and>
   \<not> abs (1 :: real) < 1 / 10 ^ 12 \<and>
   length [(2 :: real, 1 :: real)] \<noteq> nat 100"
proof -
  have rng: "[1..100] = 1 # 2 # [3..100]"
    by (simp add: upto_rec1)
  have run: "newton_plot_run (\<lambda>x. x ^ 2 + 1) (\<lambda>x. 2 * x) 1 100
      (1 / 10 ^ 12) (1 / 10 ^ 12) (1 / 10 ^ 12) = Inr (Small_Slope, [1, 0], [2, 1], [(2, 1)])"
    unfolding newton_plot_run_def rng
    by (simp add: py_div_def Let_def del: upto_rec_numeral)
  then show ?thesis
    by (simp add: newton_method_with_plot_def)
qed

text \<open>
  Claim C4, amended. Every call of \<^verbatim>\<open>bisect_method_with_plot\<close>, \<^verbatim>\<open>newton_method_with_plot\<close>
  or \<^verbatim>\<open>secant_method_with_plot\<close> that returns completes at most \<open>max_iter\<close> passes (\<open>M\<close> or
  \<open>nmax\<close>, counted as 0 when negative), and it ends in one of these ways: the last pass met a
  tolerance (\<open>\<bar>step\<bar> < step_tol\<close> or \<open>\<bar>f x_final\<bar> < value_tol\<close>); or, for Newton and secant
  only, the slope guard tripped at the final iterate before \<open>max_iter\<close> passes were completed;
  or exactly \<open>max_iter\<close> passes were completed. So when no tolerance is met and the guard
  never trips, exactly \<open>max_iter\<close> passes are made.
\<close>

theorem loop_exit_conditions:
  "(bisect_plot_run a b M err1 epsilon f = (ex, x_vals, fx_vals, lg) \<longrightarrow>
      length lg = length x_vals \<and> length x_vals \<le> nat M \<and>
      (ex = Converged \<and> x_vals \<noteq> [] \<and>
         (abs (snd (snd (last lg))) < err1 \<or> abs (f (last x_vals)) < epsilon)
       \<or> ex = Exhausted \<and> length x_vals = nat M)) \<and>
   (newton_plot_run f fprime x0 nmax err1 err2 epsilon = Inr (ex', x_vals', fx_vals', lg') \<longrightarrow>
      length x_vals' = Suc (length lg') \<and> length lg' \<le> nat nmax \<and>
      (ex' = Converged \<and> lg' \<noteq> [] \<and>
         (abs (snd (last lg')) < err1 \<or> abs (f (last x_vals')) < err2)
       \<or> ex' = Small_Slope \<and> abs (fprime (last x_vals')) < epsilon \<and> length lg' < nat nmax
       \<or> ex' = Exhausted \<and> length lg' = nat nmax)) \<and>
   (secant_plot_run f y0 y1 nmax err1 err2 epsilon = Inr (ex'', x_vals'', fx_vals'', lg'') \<longrightarrow>
      length x_vals'' = Suc (Suc (length lg'')) \<and> length lg'' \<le> nat nmax \<and>
      (ex'' = Converged \<and> lg'' \<noteq> [] \<and>
         (abs (snd (last lg'')) < err1 \<or> abs (f (last x_vals'')) < err2)
       \<or> ex'' = Small_Slope \<and>
           abs (f (x_vals'' ! Suc (length lg'')) - f (x_vals'' ! length lg'')) < epsilon \<and>
           length lg'' < nat nmax
       \<or> ex'' = Exhausted \<and> length lg'' = nat nmax))"
proof (intro conjI impI)
  assume run: "bisect_plot_run a b M err1 epsilon f = (ex, x_vals, fx_vals, lg)"
  then have loop:
    "bisect_plot_loop f err1 epsilon [1..M] a b (f a) (f b) (b - a) [] [] [] =
       (ex, x_vals, fx_vals, lg)"
    by (simp add: bisect_plot_run_def)
  from bisect_plot_run_seqs [OF run]
  show "length lg = length x_vals" and "length x_vals \<le> nat M" by simp_all
  from bisect_plot_loop_exit [OF loop]
  show "ex = Converged \<and> x_vals \<noteq> [] \<and>
         (abs (snd (snd (last lg))) < err1 \<or> abs (f (last x_vals)) < epsilon)
       \<or> ex = Exhausted \<and> length x_vals = nat M"
    by (cases ex) simp_all
next
  assume run: "newton_plot_run f fprime x0 nmax err1 err2 epsilon =
    Inr (ex', x_vals', fx_vals', lg')"
  from newton_plot_run_seqs [OF run]
  show "length x_vals' = Suc (length lg')" and "length lg' \<le> nat nmax" by simp_all
  from newton_plot_run_exit(1-3) [OF run]
  show "ex' = Converged \<and> lg' \<noteq> [] \<and>
         (abs (snd (last lg')) < err1 \<or> abs (f (last x_vals')) < err2)
       \<or> ex' = Small_Slope \<and> abs (fprime (last x_vals')) < epsilon \<and> length lg' < nat nmax
       \<or> ex' = Exhausted \<and> length lg' = nat nmax"
    by (cases ex') simp_all
next
  assume run: "secant_plot_run f y0 y1 nmax err1 err2 epsilon =
    Inr (ex'', x_vals'', fx_vals'', lg'')"
  from secant_plot_run_seqs [OF run]
  show "length x_vals'' = Suc (Suc (length lg''))" and "length lg'' \<le> nat nmax" by simp_all
  from secant_plot_run_exit(1-3) [OF run]
  show "ex'' = Converged \<and> lg'' \<noteq> [] \<and>
         (abs (snd (last lg'')) < err1 \<or> abs (f (last x_vals'')) < err2)
       \<or> ex'' = Small_Slope \<and>
           abs (f (x_vals'' ! Suc (length lg'')) - f (x_vals'' ! length lg'')) < epsilon \<and>
           length lg'' < nat nmax
       \<or> ex'' = Exhausted \<and> length lg'' = nat nmax"
    by (cases ex'') simp_all
qed

theorem loop_exit_conditions_witness:
  "bisect_plot_run 0 3 2 (1 / 10 ^ 12) (1 / 10 ^ 12) f2 =
     (Exhausted, [3 / 2, 3 / 4], [5 / 4, - (7 / 16)], [(0, 3, 3 / 2), (0, 3 / 2, 3 / 4)]) \<and>
   newton_plot_run f2 f2_prime (3 / 2) 2 (1 / 10 ^ 12) (1 / 10 ^ 12) (1 / 10 ^ 12) =
     Inr (Exhausted, [3 / 2, 13 / 12, 313 / 312], [5 / 4, 25 / 144, 625 / 97344],
          [(3, 5 / 12), (13 / 6, 25 / 312)]) \<and>
   secant_plot_run f2 0 2 2 (1 / 10 ^ 12) (1 / 10 ^ 12) (1 / 10 ^ 12) =
     Inr (Exhausted, [0, 2, 1 / 2, 4 / 5], [- 1, 3, - (3 / 4), - (9 / 25)],
          [(4, 3 / 2), (- (15 / 4), - (3 / 10))]) \<and>
   length [3 / 2, 3 / 4 :: real] = nat 2 \<and>
   length [(3, 5 / 12), (13 / 6, 25 / 312 :: real)] = nat 2 \<and>
   length [(4, 3 / 2), (- (15 / 4), - (3 / 10) :: real)] = nat 2"
proof -
  note t = loop_exit_conditions [where a = 0 and b = 3 and M = 2 and f = f2
      and ?err1.0 = "1 / 10 ^ 12" and ?err2.0 = "1 / 10 ^ 12" and epsilon = "1 / 10 ^ 12"
      and ex = Exhausted and x_vals = "[3 / 2, 3 / 4]" and fx_vals = "[5 / 4, - (7 / 16)]"
      and lg = "[(0, 3, 3 / 2), (0, 3 / 2, 3 / 4)]"
      and fprime = f2_prime and ?x0.0 = "3 / 2" and nmax = 2 and ex' = Exhausted
      and x_vals' = "[3 / 2, 13 / 12, 313 / 312]" and fx_vals' = "[5 / 4, 25 / 144, 625 / 97344]"
      and lg' = "[(3, 5 / 12), (13 / 6, 25 / 312)]"
      and ?y0.0 = 0 and ?y1.0 = 2 and ex'' = Exhausted
      and x_vals'' = "[0, 2, 1 / 2, 4 / 5]" and fx_vals'' = "[- 1, 3, - (3 / 4), - (9 / 25)]"
      and lg'' = "[(4, 3 / 2), (- (15 / 4), - (3 / 10))]"]
  from t bisect_f2_run newton_f2_run secant_f2_run show ?thesis
    by simp
qed

text \<open>
  The functions without visualisation support loop over \<^verbatim>\<open>range(1, M)\<close> and
  \<^verbatim>\<open>range(1, nmax)\<close>, one value fewer than their siblings: with a cap of 1 they make no pass,
  where the siblings make one.
\<close>

lemma range_stops_one_short:
  "bisect_method 0 2 1 (1 / 10 ^ 12) (1 / 10 ^ 12) f2 = PyNone"
  "bisect_method_with_plot 0 2 1 (1 / 10 ^ 12) (1 / 10 ^ 12) f2 = Seqs [1] [0]"
  "newton_method (\<lambda>x. x) (\<lambda>x. 1) 1 1 (1 / 10 ^ 12) (1 / 10 ^ 12) (1 / 10 ^ 12) = Inr PyNone"
  "newton_method_with_plot (\<lambda>x. x) (\<lambda>x. 1) 1 1 (1 / 10 ^ 12) (1 / 10 ^ 12) (1 / 10 ^ 12) =
     Inr (Seqs [1, 0] [1, 0])"
  "secant_method (\<lambda>x. x) 1 2 1 (1 / 10 ^ 12) (1 / 10 ^ 12) (1 / 10 ^ 12) = Inr PyNone"
  "secant_method_with_plot (\<lambda>x. x) 1 2 1 (1 / 10 ^ 12) (1 / 10 ^ 12) (1 / 10 ^ 12) =
     Inr (Seqs [1, 2, 0] [1, 2, 0])"
  by (simp_all add: bisect_method_def bisect_method_with_plot_def bisect_plot_run_def
        newton_method_def newton_method_with_plot_def newton_plot_run_def
        secant_method_def secant_method_with_plot_def secant_plot_run_def
        sign_def f2_def py_div_def Let_def)

section \<open>What the returned value tells about the outcome\<close>

text \<open>
  Three calls of \<^verbatim>\<open>newton_method_with_plot\<close> on the second test function from 1.5 that leave
  the loop in the three different ways (value tolerance 1 met after the first step; derivative
  floor 5/2 tripped in the second pass; cap of 1 exhausted) and return the same pair of
  sequences.
\<close>

theorem outcome_untagged_counterexample:
  "newton_plot_run f2 f2_prime (3 / 2) 5 (1 / 10 ^ 12) 1 (1 / 10 ^ 12) =
     Inr (Converged, [3 / 2, 13 / 12], [5 / 4, 25 / 144], [(3, 5 / 12)]) \<and>
   newton_plot_run f2 f2_prime (3 / 2) 5 (1 / 10 ^ 12) (1 / 10 ^ 12) (5 / 2) =
     Inr (Small_Slope, [3 / 2, 13 / 12], [5 / 4, 25 / 144], [(3, 5 / 12)]) \<and>
   newton_plot_run f2 f2_prime (3 / 2) 1 (1 / 10 ^ 12) (1 / 10 ^ 12) (1 / 10 ^ 12) =
     Inr (Exhausted, [3 / 2, 13 / 12], [5 / 4, 25 / 144], [(3, 5 / 12)]) \<and>
   newton_method_with_plot f2 f2_prime (3 / 2) 5 (1 / 10 ^ 12) 1 (1 / 10 ^ 12) =
     Inr (Seqs [3 / 2, 13 / 12] [5 / 4, 25 / 144]) \<and>
   newton_method_with_plot f2 f2_prime (3 / 2) 5 (1 / 10 ^ 12) (1 / 10 ^ 12) (5 / 2) =
     Inr (Seqs [3 / 2, 13 / 12] [5 / 4, 25 / 144]) \<and>
   newton_method_with_plot f2 f2_prime (3 / 2) 1 (1 / 10 ^ 12) (1 / 10 ^ 12) (1 / 10 ^ 12) =
     Inr (Seqs [3 / 2, 13 / 12] [5 / 4, 25 / 144])"
proof -
  have rng: "[1..5] = 1 # 2 # [3..5]"
    by (simp add: upto_rec1)
  have A: "newton_plot_run f2 f2_prime (3 / 2) 5 (1 / 10 ^ 12) 1 (1 / 10 ^ 12) =
     Inr (Converged, [3 / 2, 13 / 12], [5 / 4, 25 / 144], [(3, 5 / 12)])"
    unfolding newton_plot_run_def rng
    by (simp add: f2_def f2_prime_def py_div_def Let_def power2_eq_square del: upto_rec_numeral)
  have B: "newton_plot_run f2 f2_prime (3 / 2) 5 (1 / 10 ^ 12) (1 / 10 ^ 12) (5 / 2) =
     Inr (Small_Slope, [3 / 2, 13 / 12], [5 / 4, 25 / 144], [(3, 5 / 12)])"
    unfolding newton_plot_run_def rng
    by (simp add: f2_def f2_prime_def py_div_def Let_def power2_eq_square del: upto_rec_numeral)
  have C: "newton_plot_run f2 f2_prime (3 / 2) 1 (1 / 10 ^ 12) (1 / 10 ^ 12) (1 / 10 ^ 12) =
     Inr (Exhausted, [3 / 2, 13 / 12], [5 / 4, 25 / 144], [(3, 5 / 12)])"
    unfolding newton_plot_run_def
    by (simp add: f2_def f2_prime_def py_div_def Let_def power2_eq_square)
  show ?thesis
    unfolding newton_method_with_plot_def A B C by simp
qed

text \<open>
  Claim C5, amended. A precondition failure of the bisection functions is told apart by the
  returned value alone: it is the string \<^verbatim>\<open>"Same Sign"\<close> exactly when
  \<open>sign (f a) = sign (f b)\<close>, and a pair of sequences from \<^verbatim>\<open>bisect_method_with_plot\<close>
  otherwise. The pair returned by \<^verbatim>\<open>bisect_method_with_plot\<close>, \<^verbatim>\<open>newton_method_with_plot\<close>
  and \<^verbatim>\<open>secant_method_with_plot\<close> carries no mark of the outcome; the outcome is determined
  by the pair together with the iteration cap and the tolerances of the call (and the bracket,
  for bisection): converged when the last step or the last function value is under its
  tolerance, else exhausted when the sequences have their full length, else stopped by the
  slope guard.
\<close>

theorem outcome_from_result:
  "(bisect_method_with_plot a b M err1 epsilon f = Same_Sign \<longleftrightarrow> sign (f a) = sign (f b)) \<and>
   (bisect_method a b M err1 epsilon f = Same_Sign \<longleftrightarrow> sign (f a) = sign (f b)) \<and>
   (sign (f a) \<noteq> sign (f b) \<and>
    bisect_plot_run a b M err1 epsilon f = (ex, x_vals, fx_vals, lg) \<longrightarrow>
      bisect_method_with_plot a b M err1 epsilon f = Seqs x_vals fx_vals \<and>
      ex = (if x_vals \<noteq> [] \<and>
               (abs ((b - a) / 2 ^ length x_vals) < err1 \<or> abs (last fx_vals) < epsilon)
            then Converged else Exhausted)) \<and>
   (newton_plot_run f fprime x0 nmax err1 err2 epsilon = Inr (ex', x_vals', fx_vals', lg') \<longrightarrow>
      newton_method_with_plot f fprime x0 nmax err1 err2 epsilon = Inr (Seqs x_vals' fx_vals') \<and>
      ex' = (if 2 \<le> length x_vals' \<and>
                (abs (x_vals' ! (length x_vals' - 2) - last x_vals') < err1 \<or>
                 abs (last fx_vals') < err2)
             then Converged
             else if length x_vals' = Suc (nat nmax) then Exhausted else Small_Slope)) \<and>
   (secant_plot_run f y0 y1 nmax err1 err2 epsilon = Inr (ex'', x_vals'', fx_vals'', lg'') \<longrightarrow>
      secant_method_with_plot f y0 y1 nmax err1 err2 epsilon = Inr (Seqs x_vals'' fx_vals'') \<and>
      ex'' = (if 3 \<le> length x_vals'' \<and>
                 (abs (x_vals'' ! (length x_vals'' - 2) - last x_vals'') < err1 \<or>
                  abs (last fx_vals'') < err2)
              then Converged
              else if length x_vals'' = Suc (Suc (nat nmax)) then Exhausted else Small_Slope))"
proof (intro conjI impI)
  show "bisect_method_with_plot a b M err1 epsilon f = Same_Sign \<longleftrightarrow> sign (f a) = sign (f b)"
    by (simp add: bisect_method_with_plot_def split: prod.splits)
  show "bisect_method a b M err1 epsilon f = Same_Sign \<longleftrightarrow> sign (f a) = sign (f b)"
    by (simp add: bisect_method_def Let_def bisect_loop_not_Same_Sign)
next
  assume "sign (f a) \<noteq> sign (f b) \<and>
    bisect_plot_run a b M err1 epsilon f = (ex, x_vals, fx_vals, lg)"
  then have sg: "sign (f a) \<noteq> sign (f b)"
    and run: "bisect_plot_run a b M err1 epsilon f = (ex, x_vals, fx_vals, lg)"
    by simp_all
  from sg run show "bisect_method_with_plot a b M err1 epsilon f = Seqs x_vals fx_vals"
    by (simp add: bisect_method_with_plot_def)
  from bisect_plot_run_exit(1) [OF run]
  show "ex = (if x_vals \<noteq> [] \<and>
               (abs ((b - a) / 2 ^ length x_vals) < err1 \<or> abs (last fx_vals) < epsilon)
            then Converged else Exhausted)" .
next
  assume run: "newton_plot_run f fprime x0 nmax err1 err2 epsilon =
    Inr (ex', x_vals', fx_vals', lg')"
  then show "newton_method_with_plot f fprime x0 nmax err1 err2 epsilon =
    Inr (Seqs x_vals' fx_vals')"
    by (simp add: newton_method_with_plot_def)
  from newton_plot_run_exit(4) [OF run]
  show "ex' = (if 2 \<le> length x_vals' \<and>
                (abs (x_vals' ! (length x_vals' - 2) - last x_vals') < err1 \<or>
                 abs (last fx_vals') < err2)
             then Converged
             else if length x_vals' = Suc (nat nmax) then Exhausted else Small_Slope)" .
next
  assume run: "secant_plot_run f y0 y1 nmax err1 err2 epsilon =
    Inr (ex'', x_vals'', fx_vals'', lg'')"
  then show "secant_method_with_plot f y0 y1 nmax err1 err2 epsilon =
    Inr (Seqs x_vals'' fx_vals'')"
    by (simp add: secant_method_with_plot_def)
  from secant_plot_run_exit(4) [OF run]
  show "ex'' = (if 3 \<le> length x_vals'' \<and>
                 (abs (x_vals'' ! (length x_vals'' - 2) - last x_vals'') < err1 \<or>
                  abs (last fx_vals'') < err2)
              then Converged
              else if length x_vals'' = Suc (Suc (nat nmax)) then Exhausted else Small_Slope)" .
qed

theorem outcome_from_result_witness:
  "sign (f2 0) \<noteq> sign (f2 3) \<and>
   bisect_plot_run 0 3 2 (1 / 10 ^ 12) (1 / 10 ^ 12) f2 =
     (Exhausted, [3 / 2, 3 / 4], [5 / 4, - (7 / 16)], [(0, 3, 3 / 2), (0, 3 / 2, 3 / 4)]) \<and>
   bisect_method_with_plot 0 3 2 (1 / 10 ^ 12) (1 / 10 ^ 12) f2 =
     Seqs [3 / 2, 3 / 4] [5 / 4, - (7 / 16)] \<and>
   newton_plot_run f2 f2_prime (3 / 2) 2 (1 / 10 ^ 12) (1 / 10 ^ 12) (1 / 10 ^ 12) =
     Inr (Exhausted, [3 / 2, 13 / 12, 313 / 312], [5 / 4, 25 / 144, 625 / 97344],
          [(3, 5 / 12), (13 / 6, 25 / 312)]) \<and>
   newton_method_with_plot f2 f2_prime (3 / 2) 2 (1 / 10 ^ 12) (1 / 10 ^ 12) (1 / 10 ^ 12) =
     Inr (Seqs [3 / 2, 13 / 12, 313 / 312] [5 / 4, 25 / 144, 625 / 97344]) \<and>
   secant_plot_run f2 0 2 2 (1 / 10 ^ 12) (1 / 10 ^ 12) (1 / 10 ^ 12) =
     Inr (Exhausted, [0, 2, 1 / 2, 4 / 5], [- 1, 3, - (3 / 4), - (9 / 25)],
          [(4, 3 / 2), (- (15 / 4), - (3 / 10))]) \<and>
   secant_method_with_plot f2 0 2 2 (1 / 10 ^ 12) (1 / 10 ^ 12) (1 / 10 ^ 12) =
     Inr (Seqs [0, 2, 1 / 2, 4 / 5] [- 1, 3, - (3 / 4), - (9 / 25)])"
proof -
  have sg: "sign (f2 0) \<noteq> sign (f2 3)"
    by (simp add: sign_def f2_def)
  note t = outcome_from_result [where a = 0 and b = 3 and M = 2 and f = f2
      and ?err1.0 = "1 / 10 ^ 12" and ?err2.0 = "1 / 10 ^ 12" and epsilon = "1 / 10 ^ 12"
      and ex = Exhausted and x_vals = "[3 / 2, 3 / 4]" and fx_vals = "[5 / 4, - (7 / 16)]"
      and lg = "[(0, 3, 3 / 2), (0, 3 / 2, 3 / 4)]"
      and fprime = f2_prime and ?x0.0 = "3 / 2" and nmax = 2 and ex' = Exhausted
      and x_vals' = "[3 / 2, 13 / 12, 313 / 312]" and fx_vals' = "[5 / 4, 25 / 144, 625 / 97344]"
      and lg' = "[(3, 5 / 12), (13 / 6, 25 / 312)]"
      and ?y0.0 = 0 and ?y1.0 = 2 and ex'' = Exhausted
      and x_vals'' = "[0, 2, 1 / 2, 4 / 5]" and fx_vals'' = "[- 1, 3, - (3 / 4), - (9 / 25)]"
      and lg'' = "[(4, 3 / 2), (- (15 / 4), - (3 / 10))]"]
  from t sg bisect_f2_run newton_f2_run secant_f2_run show ?thesis
    by simp
qed

section \<open>Bisection: the assignment to fa\<close>

lemma bisect_loop_ignores_fa:
  "bisect_loop f err1 epsilon rng a b fa fb e =
   bisect_loop_corrected f err1 epsilon rng a b fa' fb e"
proof (induction rng arbitrary: a b fa fa' fb e)
  case Nil
  show ?case by simp
next
  case (Cons i rng)
  have keep_a: "bisect_loop f err1 epsilon rng a c fa fc e' =
      bisect_loop_corrected f err1 epsilon rng a c fa' fc e'" for c fc e'
    by (rule Cons.IH)
  have move_a: "bisect_loop f err1 epsilon rng c b c fb e' =
      bisect_loop_corrected f err1 epsilon rng c b fc fb e'" for c fc e'
    by (rule Cons.IH)
  show ?case
    by (simp add: Let_def keep_a move_a)
qed

text \<open>
  Claim C9. In \<^verbatim>\<open>bisect_method\<close> the local \<^verbatim>\<open>fa\<close> is not read once the loop is entered (the
  sign test calls \<^verbatim>\<open>f(a)\<close> again), so assigning \<^verbatim>\<open>fa = c\<close> instead of \<^verbatim>\<open>fa = fc\<close> changes
  nothing: for every input \<^verbatim>\<open>bisect_method\<close> returns what the corrected variant returns.
\<close>

theorem bisect_method_eq_corrected:
  "bisect_method a b M err1 epsilon f = bisect_method_corrected a b M err1 epsilon f"
  by (simp add: bisect_method_def bisect_method_corrected_def Let_def
        bisect_loop_ignores_fa [of f err1 epsilon _ a b "f a" "f b" "b - a" "f a"])

end
